theory Spec2Isabelle
  imports Main "HOL-Library.Product_Lexorder"
begin

section \<open>Values of the database\<close>

text \<open>
  A calendar date and a timestamp, read in the time zone of the database session:
  \<open>DATE(created_on)\<close> is the first component of a timestamp, the second one
  counts the time elapsed within that day.
\<close>

datatype date = Date (day: nat) (month: nat) (year: nat)

datatype timestamp = Timestamp (date_of: date) (time_of: nat)

text \<open>The errors PostgreSQL raises in the statements modelled here.\<close>

datatype pg_error =
    not_null_violation
  | unique_violation
  | foreign_key_violation
  | numeric_value_out_of_range

subsection \<open>Text and integers\<close>

definition digit_char :: "nat \<Rightarrow> char" where
  "digit_char d = ''0123456789'' ! d"

text \<open>\<open>n::TEXT\<close> for a non-negative integer: its decimal digits, no padding.\<close>

fun text_of_nat :: "nat \<Rightarrow> string" where
  "text_of_nat n =
     (if n < 10 then [digit_char n] else text_of_nat (n div 10) @ [digit_char (n mod 10)])"

declare text_of_nat.simps [simp del]

definition is_digit :: "char \<Rightarrow> bool" where
  "is_digit c = (c \<in> set ''0123456789'')"

definition digit_value :: "char \<Rightarrow> nat" where
  "digit_value c = of_char c - 48"

definition decimal_value :: "string \<Rightarrow> nat" where
  "decimal_value ds = foldl (\<lambda>a c. 10 * a + digit_value c) 0 ds"

text \<open>The largest value of the four-byte type \<open>integer\<close> (\<open>INT\<close>).\<close>

definition int4_max :: nat where
  "int4_max = 2147483647"

definition in_int4 :: "int \<Rightarrow> bool" where
  "in_int4 v = (- 2147483648 \<le> v \<and> v \<le> 2147483647)"

text \<open>\<open>CAST(ds AS INT)\<close> on a string of digits: a value beyond the type is an error.\<close>

definition cast_int :: "string \<Rightarrow> pg_error + nat" where
  "cast_int ds =
     (if decimal_value ds \<le> int4_max then Inr (decimal_value ds)
      else Inl numeric_value_out_of_range)"

text \<open>\<open>LPAD(s, n, c)\<close>: fills on the left up to length \<open>n\<close>, and cuts a longer string.\<close>

definition lpad :: "string \<Rightarrow> nat \<Rightarrow> char \<Rightarrow> string" where
  "lpad s n c = (if n \<le> length s then take n s else replicate (n - length s) c @ s)"

text \<open>
  \<open>TO_CHAR(d, 'DDMMYYYY')\<close>: day and month on two digits, the year on four (or more),
  zero-filled and never cut.
\<close>

definition zero_fill :: "nat \<Rightarrow> nat \<Rightarrow> string" where
  "zero_fill w n = replicate (w - length (text_of_nat n)) CHR ''0'' @ text_of_nat n"

definition to_char_DDMMYYYY :: "date \<Rightarrow> string" where
  "to_char_DDMMYYYY d = zero_fill 2 (day d) @ zero_fill 2 (month d) @ zero_fill 4 (year d)"

text \<open>
  The order of \<open>ORDER BY\<close> on a \<open>text\<close> column, taken bytewise (collation \<open>C\<close>): the
  first differing character decides, a proper prefix comes first.
\<close>

fun text_less :: "string \<Rightarrow> string \<Rightarrow> bool" where
  "text_less [] [] = False"
| "text_less [] (y # ys) = True"
| "text_less (x # xs) [] = False"
| "text_less (x # xs) (y # ys) =
     (if x = y then text_less xs ys else (of_char x :: nat) < of_char y)"

text \<open>\<open>ORDER BY .. DESC LIMIT 1\<close>: the greatest text of the selection, NULL when it is empty.\<close>

fun order_by_desc_limit_1 :: "string list \<Rightarrow> string option" where
  "order_by_desc_limit_1 [] = None"
| "order_by_desc_limit_1 (x # xs) =
     (case order_by_desc_limit_1 xs of
        None \<Rightarrow> Some x
      | Some m \<Rightarrow> if text_less m x then Some x else Some m)"

text \<open>
  \<open>s LIKE p || '%'\<close> where \<open>p\<close> holds no wildcard (here \<open>INV\<close>, eight digits and a
  dash): \<open>s\<close> starts with \<open>p\<close>.
\<close>

definition like_prefix :: "string \<Rightarrow> string \<Rightarrow> bool" where
  "like_prefix p s = (take (length p) s = p)"

text \<open>
  \<open>SUBSTRING(s FROM '[0-9]+$')\<close>: the longest run of digits that ends the string, NULL
  when the string does not end with a digit.
\<close>

definition substring_trailing_digits :: "string \<Rightarrow> string option" where
  "substring_trailing_digits s =
     (let ds = rev (takeWhile is_digit (rev s)) in if ds = [] then None else Some ds)"

section \<open>The schema of migration 0000\<close>

datatype column_type = T_serial | T_text | T_integer | T_timestamptz

datatype column_constraint =
    PRIMARY_KEY
  | NOT_NULL
  | UNIQUE
  | DEFAULT_VALUE string
  | REFERENCES string string

type_synonym column = "string \<times> column_type \<times> column_constraint list"

text \<open>
  The tables as \<open>CREATE TABLE\<close> and the \<open>ALTER TABLE .. ADD CONSTRAINT\<close> statements
  declare them; a table constraint is listed at its column.
\<close>

definition services_table :: "column list" where
  "services_table =
    [(''id'', T_serial, [PRIMARY_KEY, NOT_NULL]),
     (''code'', T_text, [NOT_NULL]),
     (''name'', T_text, [NOT_NULL]),
     (''icon_url'', T_text, [NOT_NULL]),
     (''tariff'', T_integer, [NOT_NULL])]"

definition transaction_type_enum_table :: "column list" where
  "transaction_type_enum_table =
    [(''id'', T_serial, [PRIMARY_KEY, NOT_NULL]),
     (''transaction_type'', T_text, [NOT_NULL, UNIQUE])]"

definition user_balance_table :: "column list" where
  "user_balance_table =
    [(''user_id'', T_integer, [NOT_NULL, UNIQUE, REFERENCES ''users'' ''id'']),
     (''balance'', T_integer, [NOT_NULL])]"

definition user_transactions_table :: "column list" where
  "user_transactions_table =
    [(''id'', T_serial, [PRIMARY_KEY, NOT_NULL]),
     (''user_id'', T_integer, [NOT_NULL, REFERENCES ''users'' ''id'']),
     (''invoice_number'', T_text, [NOT_NULL]),
     (''service_id'', T_integer, [REFERENCES ''services'' ''id'']),
     (''description'', T_text, [NOT_NULL]),
     (''total_amount'', T_integer, [NOT_NULL]),
     (''created_on'', T_timestamptz, []),
     (''transaction_type_id'', T_integer, [NOT_NULL, REFERENCES ''transaction_type_enum'' ''id''])]"

definition users_table :: "column list" where
  "users_table =
    [(''id'', T_serial, [PRIMARY_KEY, NOT_NULL]),
     (''email'', T_text, [NOT_NULL]),
     (''password_hash'', T_text, [NOT_NULL]),
     (''first_name'', T_text, [NOT_NULL]),
     (''last_name'', T_text, [NOT_NULL]),
     (''profile_image'', T_text, [NOT_NULL])]"

definition constraints_of :: "column list \<Rightarrow> string \<Rightarrow> column_constraint list" where
  "constraints_of tbl c = (case map_of tbl c of None \<Rightarrow> [] | Some (ty, cs) \<Rightarrow> cs)"

definition is_not_null :: "column list \<Rightarrow> string \<Rightarrow> bool" where
  "is_not_null tbl c = (NOT_NULL \<in> set (constraints_of tbl c))"

definition is_unique :: "column list \<Rightarrow> string \<Rightarrow> bool" where
  "is_unique tbl c =
     (UNIQUE \<in> set (constraints_of tbl c) \<or> PRIMARY_KEY \<in> set (constraints_of tbl c))"

text \<open>A column has a default when it is \<open>serial\<close> or declares one.\<close>

definition has_default :: "column list \<Rightarrow> string \<Rightarrow> bool" where
  "has_default tbl c =
     (case map_of tbl c of
        None \<Rightarrow> False
      | Some (ty, cs) \<Rightarrow> ty = T_serial \<or> list_ex (\<lambda>k. case k of DEFAULT_VALUE v \<Rightarrow> True | _ \<Rightarrow> False) cs)"

text \<open>The checks an \<open>INSERT\<close> or \<open>UPDATE\<close> makes on one column value.\<close>

definition null_ok :: "column list \<Rightarrow> string \<Rightarrow> 'a option \<Rightarrow> bool" where
  "null_ok tbl c v = (if is_not_null tbl c then v \<noteq> None else True)"

definition unique_ok :: "column list \<Rightarrow> string \<Rightarrow> 'a list \<Rightarrow> 'a option \<Rightarrow> bool" where
  "unique_ok tbl c stored v =
     (if is_unique tbl c then (case v of None \<Rightarrow> True | Some x \<Rightarrow> x \<notin> set stored) else True)"

definition reference_ok :: "int list \<Rightarrow> int option \<Rightarrow> bool" where
  "reference_ok keys v = (case v of None \<Rightarrow> True | Some x \<Rightarrow> x \<in> set keys)"

definition range_ok :: "int option \<Rightarrow> bool" where
  "range_ok v = (case v of None \<Rightarrow> True | Some x \<Rightarrow> in_int4 x)"

subsection \<open>Rows and the state\<close>

record users_row =
  u_id :: int
  u_email :: string
  u_password_hash :: string
  u_first_name :: string
  u_last_name :: string
  u_profile_image :: string

record user_balance_row =
  ub_user_id :: int
  ub_balance :: int

record services_row =
  sv_id :: int
  sv_code :: string
  sv_name :: string
  sv_icon_url :: string
  sv_tariff :: int

record transaction_type_enum_row =
  tt_id :: int
  tt_transaction_type :: string

record user_transactions_row =
  ut_id :: int
  ut_user_id :: int
  ut_invoice_number :: string
  ut_service_id :: "int option"
  ut_description :: string
  ut_total_amount :: int
  ut_created_on :: "timestamp option"
  ut_transaction_type_id :: int

text \<open>
  The state: the tables in insertion order, and the last value of the sequence behind each
  \<open>serial\<close> column that is written. A sequence is not transactional: a value drawn by a
  statement that fails is not given back.
\<close>

record db =
  users :: "users_row list"
  user_balance :: "user_balance_row list"
  services :: "services_row list"
  transaction_type_enum :: "transaction_type_enum_row list"
  user_transactions :: "user_transactions_row list"
  users_id_seq :: int
  user_transactions_id_seq :: int

section \<open>The invoice number allocator\<close>

text \<open>
  The rows the allocator's \<open>SELECT\<close> keeps: \<open>DATE(created_on) = CURRENT_DATE\<close> (not true
  for a NULL \<open>created_on\<close>) and an invoice number with today's prefix.
\<close>

definition created_today :: "date \<Rightarrow> user_transactions_row \<Rightarrow> bool" where
  "created_today current_date r =
     (case ut_created_on r of None \<Rightarrow> False | Some ts \<Rightarrow> date_of ts = current_date)"

definition todays_invoices :: "date \<Rightarrow> user_transactions_row list \<Rightarrow> string list" where
  "todays_invoices current_date rows =
     map ut_invoice_number
       (filter (\<lambda>r. created_today current_date r \<and>
                    like_prefix (''INV'' @ to_char_DDMMYYYY current_date @ ''-'') (ut_invoice_number r))
          rows)"

text \<open>
  \<open>next_sequence\<close> from \<open>last_invoice\<close>: 1 without a last invoice; otherwise the trailing
  digits cast to \<open>INT\<close>, plus one. It is NULL when the last invoice does not end with a
  digit, and the cast and the addition fail beyond the type \<open>INT\<close>.
\<close>

definition next_sequence :: "string option \<Rightarrow> pg_error + nat option" where
  "next_sequence last_invoice =
     (case last_invoice of
        None \<Rightarrow> Inr (Some 1)
      | Some invoice \<Rightarrow>
          (case substring_trailing_digits invoice of
             None \<Rightarrow> Inr None
           | Some ds \<Rightarrow>
               (case cast_int ds of
                  Inl e \<Rightarrow> Inl e
                | Inr last_sequence \<Rightarrow>
                    if last_sequence + 1 \<le> int4_max then Inr (Some (last_sequence + 1))
                    else Inl numeric_value_out_of_range)))"

definition sequence_text :: "nat \<Rightarrow> string" where
  "sequence_text n = lpad (text_of_nat n) (max 3 (length (text_of_nat n))) CHR ''0''"

text \<open>
  The trigger function: the value it assigns to \<open>NEW.invoice_number\<close>, which is NULL when
  \<open>next_sequence\<close> is (a concatenation with NULL is NULL), or the error it raises.
\<close>

definition generate_invoice_number ::
    "date \<Rightarrow> user_transactions_row list \<Rightarrow> pg_error + string option" where
  "generate_invoice_number current_date rows =
     (let current_date_str = to_char_DDMMYYYY current_date;
          last_invoice = order_by_desc_limit_1 (todays_invoices current_date rows)
      in case next_sequence last_invoice of
           Inl e \<Rightarrow> Inl e
         | Inr None \<Rightarrow> Inr None
         | Inr (Some n) \<Rightarrow> Inr (Some (''INV'' @ current_date_str @ ''-'' @ sequence_text n)))"

subsection \<open>Insertion into \<open>user_transactions\<close>\<close>

text \<open>
  The values of an \<open>INSERT\<close>: a column that is left out, or NULL, is \<open>None\<close>; for \<open>id\<close>
  it is left out and takes its default, the next value of the sequence.
\<close>

record new_user_transaction =
  n_id :: "int option"
  n_user_id :: "int option"
  n_invoice_number :: "string option"
  n_service_id :: "int option"
  n_description :: "string option"
  n_total_amount :: "int option"
  n_created_on :: "timestamp option"
  n_transaction_type_id :: "int option"

text \<open>
  \<open>trigger_generate_invoice_number\<close>: before the insertion of a row,
  \<open>WHEN (NEW.invoice_number IS NULL)\<close>, the trigger function sets the invoice number.
\<close>

definition trigger_generate_invoice_number ::
    "date \<Rightarrow> user_transactions_row list \<Rightarrow> new_user_transaction \<Rightarrow> pg_error + new_user_transaction" where
  "trigger_generate_invoice_number current_date rows new =
     (case n_invoice_number new of
        Some v \<Rightarrow> Inr new
      | None \<Rightarrow>
          (case generate_invoice_number current_date rows of
             Inl e \<Rightarrow> Inl e
           | Inr invoice \<Rightarrow> Inr (new\<lparr>n_invoice_number := invoice\<rparr>)))"

text \<open>The constraints of the table, checked on the row the trigger returns.\<close>

definition check_user_transactions :: "db \<Rightarrow> new_user_transaction \<Rightarrow> pg_error option" where
  "check_user_transactions s new =
     (if \<not> (null_ok user_transactions_table ''id'' (n_id new)
           \<and> null_ok user_transactions_table ''user_id'' (n_user_id new)
           \<and> null_ok user_transactions_table ''invoice_number'' (n_invoice_number new)
           \<and> null_ok user_transactions_table ''service_id'' (n_service_id new)
           \<and> null_ok user_transactions_table ''description'' (n_description new)
           \<and> null_ok user_transactions_table ''total_amount'' (n_total_amount new)
           \<and> null_ok user_transactions_table ''created_on'' (n_created_on new)
           \<and> null_ok user_transactions_table ''transaction_type_id'' (n_transaction_type_id new))
      then Some not_null_violation
      else if \<not> range_ok (n_total_amount new)
      then Some numeric_value_out_of_range
      else if \<not> (unique_ok user_transactions_table ''id''
                    (map ut_id (user_transactions s)) (n_id new)
           \<and> unique_ok user_transactions_table ''invoice_number''
                    (map ut_invoice_number (user_transactions s)) (n_invoice_number new))
      then Some unique_violation
      else if \<not> (reference_ok (map u_id (users s)) (n_user_id new)
           \<and> reference_ok (map sv_id (services s)) (n_service_id new)
           \<and> reference_ok (map tt_id (transaction_type_enum s)) (n_transaction_type_id new))
      then Some foreign_key_violation
      else None)"

definition stored_row :: "new_user_transaction \<Rightarrow> user_transactions_row" where
  "stored_row new =
     \<lparr>ut_id = the (n_id new),
      ut_user_id = the (n_user_id new),
      ut_invoice_number = the (n_invoice_number new),
      ut_service_id = n_service_id new,
      ut_description = the (n_description new),
      ut_total_amount = the (n_total_amount new),
      ut_created_on = n_created_on new,
      ut_transaction_type_id = the (n_transaction_type_id new)\<rparr>"

text \<open>
  \<open>INSERT INTO user_transactions .. RETURNING *\<close>: the default of \<open>id\<close> is drawn from the
  sequence, the trigger runs, the constraints are checked, the row is appended. On an
  error the tables are as before. \<open>stored_row\<close> reads only columns that
  \<open>check_user_transactions\<close> has found non-NULL.
\<close>

definition insert_user_transactions ::
    "date \<Rightarrow> new_user_transaction \<Rightarrow> db \<Rightarrow> (pg_error + user_transactions_row) \<times> db" where
  "insert_user_transactions current_date new s =
     (let s1 = (case n_id new of
                  None \<Rightarrow> s\<lparr>user_transactions_id_seq := user_transactions_id_seq s + 1\<rparr>
                | Some i \<Rightarrow> s);
          new1 = (case n_id new of
                    None \<Rightarrow> new\<lparr>n_id := Some (user_transactions_id_seq s + 1)\<rparr>
                  | Some i \<Rightarrow> new)
      in case trigger_generate_invoice_number current_date (user_transactions s1) new1 of
           Inl e \<Rightarrow> (Inl e, s1)
         | Inr new2 \<Rightarrow>
             (case check_user_transactions s1 new2 of
                Some e \<Rightarrow> (Inl e, s1)
              | None \<Rightarrow>
                  (Inr (stored_row new2),
                   s1\<lparr>user_transactions := user_transactions s1 @ [stored_row new2]\<rparr>)))"

section \<open>Account provisioning\<close>

record new_user =
  nu_id :: "int option"
  nu_email :: "string option"
  nu_password_hash :: "string option"
  nu_first_name :: "string option"
  nu_last_name :: "string option"
  nu_profile_image :: "string option"

text \<open>\<open>INSERT INTO user_balance (user_id, balance) VALUES (uid, bal)\<close>.\<close>

definition insert_user_balance :: "int option \<Rightarrow> int option \<Rightarrow> db \<Rightarrow> (pg_error + unit) \<times> db" where
  "insert_user_balance uid bal s =
     (if \<not> (null_ok user_balance_table ''user_id'' uid \<and> null_ok user_balance_table ''balance'' bal)
      then (Inl not_null_violation, s)
      else if \<not> range_ok bal
      then (Inl numeric_value_out_of_range, s)
      else if \<not> unique_ok user_balance_table ''user_id'' (map ub_user_id (user_balance s)) uid
      then (Inl unique_violation, s)
      else if \<not> reference_ok (map u_id (users s)) uid
      then (Inl foreign_key_violation, s)
      else (Inr (),
            s\<lparr>user_balance := user_balance s @ [\<lparr>ub_user_id = the uid, ub_balance = the bal\<rparr>]\<rparr>))"

text \<open>
  The trigger function of \<open>trigger_initialize_user_balance\<close>, run after the insertion of
  each row \<open>NEW\<close> of \<open>users\<close>.
\<close>

definition initialize_user_balance :: "users_row \<Rightarrow> db \<Rightarrow> (pg_error + unit) \<times> db" where
  "initialize_user_balance NEW s = insert_user_balance (Some (u_id NEW)) (Some 0) s"

definition check_users :: "db \<Rightarrow> new_user \<Rightarrow> pg_error option" where
  "check_users s new =
     (if \<not> (null_ok users_table ''id'' (nu_id new)
           \<and> null_ok users_table ''email'' (nu_email new)
           \<and> null_ok users_table ''password_hash'' (nu_password_hash new)
           \<and> null_ok users_table ''first_name'' (nu_first_name new)
           \<and> null_ok users_table ''last_name'' (nu_last_name new)
           \<and> null_ok users_table ''profile_image'' (nu_profile_image new))
      then Some not_null_violation
      else if \<not> unique_ok users_table ''id'' (map u_id (users s)) (nu_id new)
      then Some unique_violation
      else None)"

definition stored_user :: "new_user \<Rightarrow> users_row" where
  "stored_user new =
     \<lparr>u_id = the (nu_id new),
      u_email = the (nu_email new),
      u_password_hash = the (nu_password_hash new),
      u_first_name = the (nu_first_name new),
      u_last_name = the (nu_last_name new),
      u_profile_image = the (nu_profile_image new)\<rparr>"

text \<open>
  \<open>INSERT INTO users .. RETURNING ..\<close>: the row is stored, then the trigger runs inside
  the same statement; when the trigger fails the statement fails and its row is not kept.
\<close>

definition insert_users :: "new_user \<Rightarrow> db \<Rightarrow> (pg_error + users_row) \<times> db" where
  "insert_users new s =
     (let s1 = (case nu_id new of
                  None \<Rightarrow> s\<lparr>users_id_seq := users_id_seq s + 1\<rparr>
                | Some i \<Rightarrow> s);
          new1 = (case nu_id new of
                    None \<Rightarrow> new\<lparr>nu_id := Some (users_id_seq s + 1)\<rparr>
                  | Some i \<Rightarrow> new)
      in case check_users s1 new1 of
           Some e \<Rightarrow> (Inl e, s1)
         | None \<Rightarrow>
             (case initialize_user_balance (stored_user new1)
                     (s1\<lparr>users := users s1 @ [stored_user new1]\<rparr>) of
                (Inl e, s2) \<Rightarrow> (Inl e, s1)
              | (Inr u, s2) \<Rightarrow> (Inr (stored_user new1), s2)))"

section \<open>Errors and transactions of the application\<close>

text \<open>A JavaScript \<open>Error\<close> with its message; a database error carries PostgreSQL's text.\<close>

datatype js_error = Error (message: string)

definition pg_message :: "pg_error \<Rightarrow> string" where
  "pg_message e =
     (case e of
        not_null_violation \<Rightarrow> ''null value violates not-null constraint''
      | unique_violation \<Rightarrow> ''duplicate key value violates unique constraint''
      | foreign_key_violation \<Rightarrow> ''insert or update violates foreign key constraint''
      | numeric_value_out_of_range \<Rightarrow> ''integer out of range'')"

definition database_error :: "pg_error \<Rightarrow> js_error" where
  "database_error e = Error (pg_message e)"

text \<open>
  \<open>db_conn.transaction(callback)\<close>: the callback's writes are committed when it returns
  and rolled back when it throws, and the error is thrown on. The sequences keep the
  values drawn.
\<close>

definition transaction :: "(db \<Rightarrow> (js_error + 'a) \<times> db) \<Rightarrow> db \<Rightarrow> (js_error + 'a) \<times> db" where
  "transaction callback s =
     (case callback s of
        (Inl err, tx) \<Rightarrow>
          (Inl err, s\<lparr>users_id_seq := users_id_seq tx,
                       user_transactions_id_seq := user_transactions_id_seq tx\<rparr>)
      | (Inr result, tx) \<Rightarrow> (Inr result, tx))"

section \<open>The transaction service\<close>

text \<open>
  The module \<open>transaction.service.js\<close>, which the controller calls as
  \<open>transactionService\<close>, is not among the sources. Its functions are modelled from
  sections 4.3 and 4.4 of the specification, on the tables of the migration; the messages
  of its errors are the ones its callers in \<open>transaction.controller.js\<close> compare with.
\<close>

text \<open>
  Modelled from the spec: the read of the current balance of an identity, under a lock
  of its row (\<open>SELECT balance FROM user_balance WHERE user_id = .. FOR UPDATE\<close>), missing
  with \<open>transaction.service.js\<close>; NULL when the identity has no balance row.
\<close>

definition select_balance_for_update :: "int \<Rightarrow> db \<Rightarrow> int option" where
  "select_balance_for_update userId tx =
     map_option ub_balance (find (\<lambda>b. ub_user_id b = userId) (user_balance tx))"

text \<open>
  Modelled from the spec: the write of the new amount to the balance row of an identity,
  missing with \<open>transaction.service.js\<close>. The column is an \<open>integer\<close>: a value beyond
  the type is refused by the database.
\<close>

definition update_balance :: "int \<Rightarrow> int \<Rightarrow> db \<Rightarrow> (pg_error + unit) \<times> db" where
  "update_balance userId new_amount tx =
     (if \<not> in_int4 new_amount then (Inl numeric_value_out_of_range, tx)
      else (Inr (),
            tx\<lparr>user_balance :=
                 map (\<lambda>b. if ub_user_id b = userId then b\<lparr>ub_balance := new_amount\<rparr> else b)
                   (user_balance tx)\<rparr>))"

text \<open>
  Modelled from the spec: the id of a kind of ledger entry (\<open>TOPUP\<close>, \<open>PAYMENT\<close>) in
  \<open>transaction_type_enum\<close>, which \<open>transaction_type_id\<close> refers to; missing with
  \<open>transaction.service.js\<close>. It is NULL for a kind that the table does not hold.
\<close>

definition select_transaction_type_id :: "string \<Rightarrow> db \<Rightarrow> int option" where
  "select_transaction_type_id kind tx =
     map_option tt_id (find (\<lambda>t. tt_transaction_type t = kind) (transaction_type_enum tx))"

text \<open>The result of a top-up, which \<open>toTopUpResponseDTO\<close> reads.\<close>

record top_up_result =
  tr_balance :: int

text \<open>
  Modelled from the spec: \<open>topUpBalance\<close> of the missing \<open>transaction.service.js\<close>,
  section 4.3, Credit. It reads the balance, fails without a balance row, writes the sum,
  and inserts a \<open>TOPUP\<close> entry of the amount without an invoice number, so that the
  trigger allocates it, and with the start of the transaction as \<open>created_on\<close>. The
  result is the new balance. The error thrown without a balance row (\<open>AccountNotFound\<close>
  in section 7) has a message that neither the spec nor the sources give: it is the
  argument \<open>account_not_found\<close> of the function, and of every function that calls it.
\<close>

definition transactionService_topUpBalance ::
    "js_error \<Rightarrow> timestamp \<Rightarrow> int \<Rightarrow> int \<Rightarrow> db \<Rightarrow> (js_error + top_up_result) \<times> db" where
  "transactionService_topUpBalance account_not_found now userId amount tx =
     (case select_balance_for_update userId tx of
        None \<Rightarrow> (Inl account_not_found, tx)
      | Some current \<Rightarrow>
          (case update_balance userId (current + amount) tx of
             (Inl e, tx1) \<Rightarrow> (Inl (database_error e), tx1)
           | (Inr u, tx1) \<Rightarrow>
               (case insert_user_transactions (date_of now)
                       \<lparr>n_id = None,
                        n_user_id = Some userId,
                        n_invoice_number = None,
                        n_service_id = None,
                        n_description = Some ''Top Up balance'',
                        n_total_amount = Some amount,
                        n_created_on = Some now,
                        n_transaction_type_id = select_transaction_type_id ''TOPUP'' tx1\<rparr> tx1 of
                  (Inl e, tx2) \<Rightarrow> (Inl (database_error e), tx2)
                | (Inr row, tx2) \<Rightarrow> (Inr \<lparr>tr_balance = current + amount\<rparr>, tx2))))"

text \<open>The summary of a payment, which \<open>toTransactionResponseDTO\<close> reads.\<close>

record transaction_result =
  t_invoice_number :: string
  t_service_code :: string
  t_service_name :: string
  t_transaction_type :: string
  t_total_amount :: int
  t_created_on :: "timestamp option"

text \<open>
  Modelled from the spec: \<open>createTransaction\<close> of the missing
  \<open>transaction.service.js\<close>, section 4.3, Debit. It resolves the service code and fails
  with \<open>Service ataus Layanan tidak ditemukan\<close> for an unknown one, reads the balance
  (failing with \<open>account_not_found\<close> without a balance row, as a top-up does), fails
  with \<open>Balance tidak mencukupi\<close>
  when the balance is below the tariff, and otherwise writes the difference and inserts a
  \<open>PAYMENT\<close> entry of the tariff for the service, described by the name of the service.
  The result is the summary of the entry.
\<close>

definition transactionService_createTransaction ::
    "js_error \<Rightarrow> timestamp \<Rightarrow> int \<Rightarrow> string \<Rightarrow> db \<Rightarrow> (js_error + transaction_result) \<times> db" where
  "transactionService_createTransaction account_not_found now userId service_code tx =
     (case find (\<lambda>sv. sv_code sv = service_code) (services tx) of
        None \<Rightarrow> (Inl (Error ''Service ataus Layanan tidak ditemukan''), tx)
      | Some service \<Rightarrow>
          (case select_balance_for_update userId tx of
             None \<Rightarrow> (Inl account_not_found, tx)
           | Some current \<Rightarrow>
               if current < sv_tariff service
               then (Inl (Error ''Balance tidak mencukupi''), tx)
               else
                 (case update_balance userId (current - sv_tariff service) tx of
                    (Inl e, tx1) \<Rightarrow> (Inl (database_error e), tx1)
                  | (Inr u, tx1) \<Rightarrow>
                      (case insert_user_transactions (date_of now)
                              \<lparr>n_id = None,
                               n_user_id = Some userId,
                               n_invoice_number = None,
                               n_service_id = Some (sv_id service),
                               n_description = Some (sv_name service),
                               n_total_amount = Some (sv_tariff service),
                               n_created_on = Some now,
                               n_transaction_type_id = select_transaction_type_id ''PAYMENT'' tx1\<rparr>
                              tx1 of
                         (Inl e, tx2) \<Rightarrow> (Inl (database_error e), tx2)
                       | (Inr row, tx2) \<Rightarrow>
                           (Inr \<lparr>t_invoice_number = ut_invoice_number row,
                                 t_service_code = sv_code service,
                                 t_service_name = sv_name service,
                                 t_transaction_type = ''PAYMENT'',
                                 t_total_amount = ut_total_amount row,
                                 t_created_on = ut_created_on row\<rparr>, tx2)))))"



text \<open>
  A record of the history and the history itself, with the fields that the DTO functions
  read; the kind of an entry is the name that \<open>transaction_type_enum\<close> holds for its
  \<open>transaction_type_id\<close>.
\<close>

record history_record =
  h_invoice_number :: string
  h_transaction_type :: "string option"
  h_description :: string
  h_total_amount :: int
  h_created_on :: "timestamp option"

record history =
  hs_offset :: int
  hs_limit :: int
  hs_records :: "history_record list"



section \<open>Responses\<close>

record top_up_response =
  r_balance :: int

datatype payload =
    Null
  | TopUpResponse top_up_response
  | TransactionResponse transaction_result
  | TransactionHistoryResponse history

record response =
  statusCode :: nat
  status :: nat
  message_of :: string
  data :: payload

definition createResponse :: "nat \<Rightarrow> nat \<Rightarrow> string \<Rightarrow> payload \<Rightarrow> response" where
  "createResponse code st msg d = \<lparr>statusCode = code, status = st, message_of = msg, data = d\<rparr>"

definition success :: "string \<Rightarrow> payload \<Rightarrow> response" where
  "success msg d = createResponse 200 0 msg d"

definition badRequest :: "string \<Rightarrow> payload \<Rightarrow> nat \<Rightarrow> response" where
  "badRequest msg d st = createResponse 400 st msg d"

text \<open>\<open>error(res, message, statusCode = 500, status = 100, data = null)\<close> of \<open>response.js\<close>.\<close>

definition error_response :: "string \<Rightarrow> nat \<Rightarrow> nat \<Rightarrow> payload \<Rightarrow> response" where
  "error_response msg code st d = createResponse code st msg d"

definition internal_server_error :: response where
  "internal_server_error = error_response ''Internal server error'' 500 100 Null"

subsection \<open>The DTOs\<close>

definition toTopUpResponseDTO :: "top_up_result \<Rightarrow> top_up_response" where
  "toTopUpResponseDTO result = \<lparr>r_balance = tr_balance result\<rparr>"

definition toTransactionResponseDTO :: "transaction_result \<Rightarrow> transaction_result" where
  "toTransactionResponseDTO t =
     \<lparr>t_invoice_number = t_invoice_number t,
      t_service_code = t_service_code t,
      t_service_name = t_service_name t,
      t_transaction_type = t_transaction_type t,
      t_total_amount = t_total_amount t,
      t_created_on = t_created_on t\<rparr>"



section \<open>The transaction controller\<close>

text \<open>
  A handler takes the state of the database and returns the response with the new state.
  A JavaScript number of a request is modelled by the integer it stands for (numbers are
  exact below two to the power 53). Each service function returns an object, on which the
  DTO functions do not throw, so the branches for a failing DTO are never taken; logging
  is left out. The first argument of \<open>topUp\<close> and \<open>createTransaction\<close> is the error
  of the service for a missing balance row, which they pass on to it.
\<close>

definition topUp :: "js_error \<Rightarrow> timestamp \<Rightarrow> int \<Rightarrow> int \<Rightarrow> db \<Rightarrow> response \<times> db" where
  "topUp account_not_found now userId top_up_amount s =
     (case transaction (transactionService_topUpBalance account_not_found now userId top_up_amount) s of
        (Inl err, s') \<Rightarrow>
          (if message err = ''Paramter amount hanya boleh angka dan tidak boleh lebih kecil dari 0''
           then error_response (message err) 400 102 Null
           else if message err = ''User not found''
           then error_response ''User not found'' 404 102 Null
           else error_response ''Internal server error'' 500 100 Null, s')
      | (Inr result, s') \<Rightarrow>
          (success ''Top Up Balance berhasil'' (TopUpResponse (toTopUpResponseDTO result)), s'))"

definition createTransaction :: "js_error \<Rightarrow> timestamp \<Rightarrow> int \<Rightarrow> string \<Rightarrow> db \<Rightarrow> response \<times> db" where
  "createTransaction account_not_found now userId service_code s =
     (case transaction (transactionService_createTransaction account_not_found now userId service_code) s of
        (Inl err, s') \<Rightarrow>
          (if message err = ''Service ataus Layanan tidak ditemukan''
           then error_response (message err) 400 102 Null
           else if message err = ''Balance tidak mencukupi''
           then error_response (message err) 400 102 Null
           else error_response ''Internal server error'' 500 100 Null, s')
      | (Inr result, s') \<Rightarrow>
          (success ''Transaksi berhasil'' (TransactionResponse (toTransactionResponseDTO result)), s'))"


section \<open>The routes\<close>

text \<open>
  A field of a request before validation: left out, not an integer, or an integer. The
  identity is the one \<open>authenticate\<close> has verified.
\<close>

datatype field = Missing | NotAnInteger | IntegerValue int

text \<open>The message of the first failing rule of a validation chain, if one fails.\<close>

definition validateTopUp :: "field \<Rightarrow> string option" where
  "validateTopUp top_up_amount =
     (case top_up_amount of
        Missing \<Rightarrow> Some ''Top up amount is required''
      | NotAnInteger \<Rightarrow>
          Some ''Paramter amount hanya boleh angka dan tidak boleh lebih kecil dari 0''
      | IntegerValue v \<Rightarrow>
          if v < 0
          then Some ''Paramter amount hanya boleh angka dan tidak boleh lebih kecil dari 0''
          else if v \<le> 0
          then Some ''Paramter amount hanya boleh angka dan tidak boleh lebih kecil dari 0''
          else None)"



text \<open>\<open>handleValidationErrors\<close> answers 400 with the first message, or calls the handler.\<close>

definition post_topup :: "js_error \<Rightarrow> timestamp \<Rightarrow> int \<Rightarrow> field \<Rightarrow> db \<Rightarrow> response \<times> db" where
  "post_topup account_not_found now userId top_up_amount s =
     (case validateTopUp top_up_amount of
        Some msg \<Rightarrow> (badRequest msg Null 102, s)
      | None \<Rightarrow>
          (case top_up_amount of
             IntegerValue v \<Rightarrow> topUp account_not_found now userId v s
           | _ \<Rightarrow> (badRequest ''Top up amount is required'' Null 102, s)))"


section \<open>Sequences of operations on one identity\<close>

datatype operation = Credit field | Debit string

fun apply_operation :: "js_error \<Rightarrow> int \<Rightarrow> timestamp \<times> operation \<Rightarrow> db \<Rightarrow> response \<times> db" where
  "apply_operation account_not_found userId (now, Credit top_up_amount) s =
     post_topup account_not_found now userId top_up_amount s"
| "apply_operation account_not_found userId (now, Debit service_code) s =
     createTransaction account_not_found now userId service_code s"

text \<open>The states after each operation of a sequence, the observable points.\<close>

fun observed :: "js_error \<Rightarrow> int \<Rightarrow> (timestamp \<times> operation) list \<Rightarrow> db \<Rightarrow> db list" where
  "observed account_not_found userId [] s = [s]"
| "observed account_not_found userId (op # ops) s =
     s # observed account_not_found userId ops (snd (apply_operation account_not_found userId op s))"

definition balance_of :: "int \<Rightarrow> db \<Rightarrow> int option" where
  "balance_of userId s = map_option ub_balance (find (\<lambda>b. ub_user_id b = userId) (user_balance s))"

section \<open>Example states\<close>

text \<open>
  The date of the example in the migration's comment; a database with one service and
  the two kinds of ledger entries and no identity yet (\<open>seeded_db\<close>); and the same
  with one registered identity and its zero balance (\<open>example_db\<close>).
\<close>

definition example_date :: date where
  "example_date = Date 17 8 2023"

definition example_now :: timestamp where
  "example_now = Timestamp (Date 17 8 2023) 36000"

text \<open>An error for a missing balance row, where an instance needs one.\<close>

definition example_account_not_found :: js_error where
  "example_account_not_found = Error ''Balance row not found''"

definition example_new_user :: new_user where
  "example_new_user =
     \<lparr>nu_id = None,
      nu_email = Some ''user@example.com'',
      nu_password_hash = Some ''hash'',
      nu_first_name = Some ''First'',
      nu_last_name = Some ''Last'',
      nu_profile_image = Some ''default_photos.jpg''\<rparr>"

definition example_user :: users_row where
  "example_user =
     \<lparr>u_id = 1,
      u_email = ''user@example.com'',
      u_password_hash = ''hash'',
      u_first_name = ''First'',
      u_last_name = ''Last'',
      u_profile_image = ''default_photos.jpg''\<rparr>"

definition seeded_db :: db where
  "seeded_db =
     \<lparr>users = [],
      user_balance = [],
      services = [\<lparr>sv_id = 1, sv_code = ''PULSA'', sv_name = ''Pulsa'',
                    sv_icon_url = ''pulsa.png'', sv_tariff = 40000\<rparr>],
      transaction_type_enum =
        [\<lparr>tt_id = 1, tt_transaction_type = ''TOPUP''\<rparr>,
         \<lparr>tt_id = 2, tt_transaction_type = ''PAYMENT''\<rparr>],
      user_transactions = [],
      users_id_seq = 0,
      user_transactions_id_seq = 0\<rparr>"

definition example_db :: db where
  "example_db =
     seeded_db\<lparr>users := [example_user],
              user_balance := [\<lparr>ub_user_id = 1, ub_balance = 0\<rparr>],
              users_id_seq := 1\<rparr>"

definition example_entry :: "int \<Rightarrow> string \<Rightarrow> timestamp option \<Rightarrow> user_transactions_row" where
  "example_entry i invoice t =
     \<lparr>ut_id = i,
      ut_user_id = 1,
      ut_invoice_number = invoice,
      ut_service_id = None,
      ut_description = ''Top Up balance'',
      ut_total_amount = 1000,
      ut_created_on = t,
      ut_transaction_type_id = 1\<rparr>"

definition example_new_entry :: "string option \<Rightarrow> timestamp option \<Rightarrow> new_user_transaction" where
  "example_new_entry invoice t =
     \<lparr>n_id = None,
      n_user_id = Some 1,
      n_invoice_number = invoice,
      n_service_id = None,
      n_description = Some ''Top Up balance'',
      n_total_amount = Some 1000,
      n_created_on = t,
      n_transaction_type_id = Some 1\<rparr>"



text \<open>
  A day of allocated entries: on the example database, \<open>n\<close> ledger entries are inserted
  one after the other, each without an invoice number and with a time of day \<open>d\<close>.
  \<open>day_entry d i\<close> is the \<open>i\<close>-th of these entries as it is stored.
\<close>

fun day_of_inserts :: "date \<Rightarrow> nat \<Rightarrow> db" where
  "day_of_inserts d 0 = example_db"
| "day_of_inserts d (Suc n) =
     snd (insert_user_transactions d (example_new_entry None (Some (Timestamp d n)))
            (day_of_inserts d n))"

definition day_entry :: "date \<Rightarrow> nat \<Rightarrow> user_transactions_row" where
  "day_entry d i =
     example_entry (int i) (''INV'' @ to_char_DDMMYYYY d @ ''-'' @ sequence_text (min i 1000))
       (Some (Timestamp d (i - 1)))"

section \<open>The constraints of the columns\<close>

lemma user_transactions_checks:
  "null_ok user_transactions_table ''id'' (Some i)"
  "null_ok user_transactions_table ''user_id'' v2 = (v2 \<noteq> None)"
  "null_ok user_transactions_table ''invoice_number'' v3 = (v3 \<noteq> None)"
  "null_ok user_transactions_table ''service_id'' v4"
  "null_ok user_transactions_table ''description'' v5 = (v5 \<noteq> None)"
  "null_ok user_transactions_table ''total_amount'' v6 = (v6 \<noteq> None)"
  "null_ok user_transactions_table ''created_on'' v7"
  "null_ok user_transactions_table ''transaction_type_id'' v8 = (v8 \<noteq> None)"
  "unique_ok user_transactions_table ''id'' ids (Some i) = (i \<notin> set ids)"
  "unique_ok user_transactions_table ''invoice_number'' stored w"
  by (simp_all add: null_ok_def unique_ok_def is_unique_def is_not_null_def constraints_of_def
        user_transactions_table_def)

lemma users_checks:
  "null_ok users_table ''id'' (Some i)"
  "null_ok users_table ''email'' (Some a)"
  "null_ok users_table ''password_hash'' (Some b)"
  "null_ok users_table ''first_name'' (Some c)"
  "null_ok users_table ''last_name'' (Some d)"
  "null_ok users_table ''profile_image'' (Some e)"
  "unique_ok users_table ''id'' ids (Some i) = (i \<notin> set ids)"
  by (simp_all add: null_ok_def unique_ok_def is_unique_def is_not_null_def constraints_of_def
        users_table_def)

lemma user_balance_checks:
  "null_ok user_balance_table ''user_id'' (Some i)"
  "null_ok user_balance_table ''balance'' (Some b)"
  "unique_ok user_balance_table ''user_id'' stored (Some i) = (i \<notin> set stored)"
  by (simp_all add: null_ok_def unique_ok_def is_unique_def is_not_null_def constraints_of_def
        user_balance_table_def)

lemma invoice_number_constraints:
  "constraints_of user_transactions_table ''invoice_number'' = [NOT_NULL]"
  by (simp add: constraints_of_def user_transactions_table_def)

lemma invoice_number_not_a_key: "\<not> is_unique user_transactions_table ''invoice_number''"
  by (simp add: is_unique_def invoice_number_constraints)

section \<open>Evaluation of the allocator\<close>

lemma to_char_example: "to_char_DDMMYYYY (Date 17 8 2023) = ''17082023''"
  by (simp add: to_char_DDMMYYYY_def zero_fill_def text_of_nat.simps digit_char_def)

lemma sequence_text_Suc_0: "sequence_text (Suc 0) = ''001''"
  by (simp add: sequence_text_def lpad_def text_of_nat.simps digit_char_def numeral_3_eq_3)

lemma sequence_text_pad:
  "sequence_text n = replicate (3 - length (text_of_nat n)) CHR ''0'' @ text_of_nat n"
  by (auto simp: sequence_text_def lpad_def max_def)

lemmas allocator_defs =
  generate_invoice_number_def todays_invoices_def created_today_def like_prefix_def
  next_sequence_def substring_trailing_digits_def is_digit_def cast_int_def decimal_value_def
  digit_value_def int4_max_def

lemmas insert_defs =
  insert_user_transactions_def trigger_generate_invoice_number_def check_user_transactions_def
  user_transactions_checks range_ok_def in_int4_def reference_ok_def stored_row_def Let_def

lemmas example_defs =
  example_db_def seeded_db_def example_user_def example_now_def example_date_def
  example_entry_def example_new_entry_def

lemma generate_invoice_number_no_today:
  "todays_invoices d rows = [] \<Longrightarrow>
   generate_invoice_number d rows = Inr (Some (''INV'' @ to_char_DDMMYYYY d @ ''-001''))"
  by (simp add: generate_invoice_number_def next_sequence_def sequence_text_Suc_0)

lemma todays_invoices_drop_null:
  "todays_invoices d (filter (\<lambda>r. ut_created_on r \<noteq> None) rows) = todays_invoices d rows"
proof -
  have "\<And>r. (ut_created_on r \<noteq> None \<and> created_today d r) = created_today d r"
    by (auto simp: created_today_def split: option.splits)
  then show ?thesis
    by (simp add: todays_invoices_def conj_assoc [symmetric] del: not_None_eq)
qed

section \<open>Supplied invoice numbers\<close>

text \<open>
  Claim C9. The allocator runs for an insertion whose \<open>invoice_number\<close> is NULL, and
  only for it. For a supplied value \<open>v\<close> the trigger leaves the row as it is; the insertion then
  either fails with an error that is the same for every other supplied value \<open>v'\<close> (so
  neither the form of \<open>v\<close> nor the invoice numbers already stored are checked), or it
  appends a row whose invoice number is \<open>v\<close> itself.
\<close>

theorem supplied_invoice_number_stored_verbatim:
  "trigger_generate_invoice_number d rows (new\<lparr>n_invoice_number := None\<rparr>)
     = (case generate_invoice_number d rows of
          Inl e \<Rightarrow> Inl e
        | Inr invoice \<Rightarrow> Inr (new\<lparr>n_invoice_number := invoice\<rparr>))
   \<and> trigger_generate_invoice_number d rows (new\<lparr>n_invoice_number := Some v\<rparr>)
     = Inr (new\<lparr>n_invoice_number := Some v\<rparr>)
   \<and> (case insert_user_transactions d (new\<lparr>n_invoice_number := Some v\<rparr>) s of
        (Inl e, s') \<Rightarrow>
          insert_user_transactions d (new\<lparr>n_invoice_number := Some v'\<rparr>) s = (Inl e, s')
      | (Inr row, s') \<Rightarrow>
          ut_invoice_number row = v \<and> user_transactions s' = user_transactions s @ [row])"
proof (intro conjI)
  show "trigger_generate_invoice_number d rows (new\<lparr>n_invoice_number := None\<rparr>)
     = (case generate_invoice_number d rows of
          Inl e \<Rightarrow> Inl e
        | Inr invoice \<Rightarrow> Inr (new\<lparr>n_invoice_number := invoice\<rparr>))"
    by (simp add: trigger_generate_invoice_number_def split: sum.splits)
  show "trigger_generate_invoice_number d rows (new\<lparr>n_invoice_number := Some v\<rparr>)
     = Inr (new\<lparr>n_invoice_number := Some v\<rparr>)"
    by (simp add: trigger_generate_invoice_number_def)
next
  show "case insert_user_transactions d (new\<lparr>n_invoice_number := Some v\<rparr>) s of
        (Inl e, s') \<Rightarrow>
          insert_user_transactions d (new\<lparr>n_invoice_number := Some v'\<rparr>) s = (Inl e, s')
      | (Inr row, s') \<Rightarrow>
          ut_invoice_number row = v \<and> user_transactions s' = user_transactions s @ [row]"
    by (cases "n_id new")
       (simp_all add: insert_user_transactions_def trigger_generate_invoice_number_def
          stored_row_def check_user_transactions_def user_transactions_checks Let_def)
qed

text \<open>
  An instance: on a ledger that already holds \<open>INV17082023-001\<close>, an insertion that
  supplies a text that is no invoice number at all stores it as it is.
\<close>

theorem supplied_invoice_number_stored_verbatim_witness:
  "map ut_invoice_number (user_transactions (snd (insert_user_transactions example_date
       (example_new_entry (Some ''not an invoice'') (Some example_now))
       (example_db\<lparr>user_transactions :=
          [example_entry 1 ''INV17082023-001'' (Some example_now)],
          user_transactions_id_seq := 1\<rparr>))))
   = [''INV17082023-001'', ''not an invoice'']"
proof -
  let ?new = "example_new_entry (Some ''not an invoice'') (Some example_now)"
  let ?s = "example_db\<lparr>user_transactions :=
              [example_entry 1 ''INV17082023-001'' (Some example_now)],
              user_transactions_id_seq := 1\<rparr>"
  have same: "?new\<lparr>n_invoice_number := Some ''not an invoice''\<rparr> = ?new"
    by (simp add: example_new_entry_def)
  have run: "fst (insert_user_transactions example_date ?new ?s)
     = Inr (example_entry 2 ''not an invoice'' (Some example_now))"
    by (simp add: insert_defs example_defs)
  obtain r s' where eq: "insert_user_transactions example_date ?new ?s = (r, s')"
    by (cases "insert_user_transactions example_date ?new ?s")
  with run have r: "r = Inr (example_entry 2 ''not an invoice'' (Some example_now))"
    by simp
  have "case insert_user_transactions example_date ?new ?s of
          (Inl e, s') \<Rightarrow>
            insert_user_transactions example_date (?new\<lparr>n_invoice_number := Some ''x''\<rparr>) ?s
              = (Inl e, s')
        | (Inr row, s') \<Rightarrow>
            ut_invoice_number row = ''not an invoice''
            \<and> user_transactions s' = user_transactions ?s @ [row]"
    using supplied_invoice_number_stored_verbatim
      [where d = example_date and new = ?new and v = "''not an invoice''" and s = ?s
         and v' = "''x''" and rows = "[]"]
    unfolding same by (elim conjE)
  with eq r have "user_transactions s'
      = user_transactions ?s @ [example_entry 2 ''not an invoice'' (Some example_now)]"
    by simp
  with eq show ?thesis
    by (simp add: example_entry_def)
qed

section \<open>Entries without a creation time\<close>

text \<open>
  Claim C10. The column \<open>created_on\<close> of the ledger is nullable and has no default. The
  allocator gives the same result with and without the rows whose \<open>created_on\<close> is NULL,
  so such a row is never seen by its scan; and when every stored row has a NULL
  \<open>created_on\<close> or the date of another day, the allocated sequence is 1 again.
\<close>

theorem null_created_on_invisible_to_allocator:
  "\<not> is_not_null user_transactions_table ''created_on''
   \<and> \<not> has_default user_transactions_table ''created_on''
   \<and> generate_invoice_number d rows
       = generate_invoice_number d (filter (\<lambda>r. ut_created_on r \<noteq> None) rows)
   \<and> ((\<forall>r \<in> set rows. case ut_created_on r of None \<Rightarrow> True | Some ts \<Rightarrow> date_of ts \<noteq> d) \<longrightarrow>
        generate_invoice_number d rows = Inr (Some (''INV'' @ to_char_DDMMYYYY d @ ''-001'')))"
proof (intro conjI impI)
  show "\<not> is_not_null user_transactions_table ''created_on''"
    by (simp add: is_not_null_def constraints_of_def user_transactions_table_def)
  show "\<not> has_default user_transactions_table ''created_on''"
    by (simp add: has_default_def user_transactions_table_def)
  show "generate_invoice_number d rows
       = generate_invoice_number d (filter (\<lambda>r. ut_created_on r \<noteq> None) rows)"
    by (simp add: generate_invoice_number_def todays_invoices_drop_null del: not_None_eq)
next
  assume "\<forall>r \<in> set rows. case ut_created_on r of None \<Rightarrow> True | Some ts \<Rightarrow> date_of ts \<noteq> d"
  then have "todays_invoices d rows = []"
    by (auto simp: todays_invoices_def created_today_def filter_empty_conv split: option.splits)
  then show "generate_invoice_number d rows = Inr (Some (''INV'' @ to_char_DDMMYYYY d @ ''-001''))"
    by (rule generate_invoice_number_no_today)
qed

text \<open>
  An instance: the ledger holds an entry of 16 August 2023 and the entries
  \<open>INV17082023-001\<close> and \<open>INV17082023-002\<close>, both stored without a creation time; the
  next number allocated on 17 August 2023 is \<open>INV17082023-001\<close>.
\<close>

theorem null_created_on_invisible_to_allocator_witness:
  "map ut_created_on
     [example_entry 1 ''INV16082023-001'' (Some (Timestamp (Date 16 8 2023) 36000)),
      example_entry 2 ''INV17082023-001'' None,
      example_entry 3 ''INV17082023-002'' None]
     = [Some (Timestamp (Date 16 8 2023) 36000), None, None]
   \<and> generate_invoice_number (Date 17 8 2023)
        [example_entry 1 ''INV16082023-001'' (Some (Timestamp (Date 16 8 2023) 36000)),
         example_entry 2 ''INV17082023-001'' None,
         example_entry 3 ''INV17082023-002'' None]
      = Inr (Some ''INV17082023-001'')"
proof -
  let ?rows = "[example_entry 1 ''INV16082023-001'' (Some (Timestamp (Date 16 8 2023) 36000)),
               example_entry 2 ''INV17082023-001'' None,
               example_entry 3 ''INV17082023-002'' None]"
  have other: "\<forall>r \<in> set ?rows.
      case ut_created_on r of None \<Rightarrow> True | Some ts \<Rightarrow> date_of ts \<noteq> Date 17 8 2023"
    by (simp add: example_entry_def)
  from null_created_on_invisible_to_allocator [of "Date 17 8 2023" ?rows] other
  have "generate_invoice_number (Date 17 8 2023) ?rows
      = Inr (Some (''INV'' @ to_char_DDMMYYYY (Date 17 8 2023) @ ''-001''))"
    by blast
  then show ?thesis
    by (simp add: to_char_example example_entry_def)
qed

section \<open>No uniqueness constraint on the invoice number\<close>

text \<open>
  Claim C2, as the schema has it. The column \<open>invoice_number\<close> of the ledger is declared
  \<open>NOT NULL\<close> and nothing else: it is no key, the uniqueness check of an insertion passes
  for every value whatever is stored, and the constraints of an insertion do not depend
  on the invoice number supplied.
\<close>

theorem invoice_number_has_no_uniqueness_constraint:
  "constraints_of user_transactions_table ''invoice_number'' = [NOT_NULL]
   \<and> \<not> is_unique user_transactions_table ''invoice_number''
   \<and> unique_ok user_transactions_table ''invoice_number'' stored v
   \<and> check_user_transactions s (new\<lparr>n_invoice_number := Some w\<rparr>)
       = check_user_transactions s (new\<lparr>n_invoice_number := Some w'\<rparr>)"
  by (simp add: invoice_number_constraints invoice_number_not_a_key user_transactions_checks
        check_user_transactions_def)

theorem invoice_number_has_no_uniqueness_constraint_witness:
  "unique_ok user_transactions_table ''invoice_number''
     [''INV17082023-001''] (Some ''INV17082023-001'')"
  using invoice_number_has_no_uniqueness_constraint
    [of "[''INV17082023-001'']" "Some ''INV17082023-001''"]
  by simp

text \<open>
  The claim as it is written fails: on a ledger that holds \<open>INV17082023-001\<close>, the
  insertion of a second entry with the same invoice number succeeds, and the table then
  holds the number twice.
\<close>

theorem invoice_number_unique_counterexample:
  "fst (insert_user_transactions example_date
          (example_new_entry (Some ''INV17082023-001'') (Some example_now))
          (example_db\<lparr>user_transactions :=
             [example_entry 1 ''INV17082023-001'' (Some example_now)],
             user_transactions_id_seq := 1\<rparr>))
     = Inr (example_entry 2 ''INV17082023-001'' (Some example_now))
   \<and> map ut_invoice_number (user_transactions (snd (insert_user_transactions example_date
          (example_new_entry (Some ''INV17082023-001'') (Some example_now))
          (example_db\<lparr>user_transactions :=
             [example_entry 1 ''INV17082023-001'' (Some example_now)],
             user_transactions_id_seq := 1\<rparr>))))
     = [''INV17082023-001'', ''INV17082023-001'']"
  by (simp add: insert_defs example_defs)

section \<open>The balance row of a new identity\<close>

lemma initialize_user_balance_cases:
  "initialize_user_balance NEW s = (r, s') \<Longrightarrow>
   (case r of
      Inl e \<Rightarrow> s' = s
    | Inr u \<Rightarrow> u_id NEW \<notin> set (map ub_user_id (user_balance s))
        \<and> s' = s\<lparr>user_balance := user_balance s @ [\<lparr>ub_user_id = u_id NEW, ub_balance = 0\<rparr>]\<rparr>)"
  by (auto simp: initialize_user_balance_def insert_user_balance_def user_balance_checks range_ok_def
        in_int4_def split: if_splits)

lemma filter_fresh: "k \<notin> set (map f xs) \<Longrightarrow> filter (\<lambda>x. f x = k) xs = []"
  by (induction xs) auto

text \<open>
  Claim C4. An insertion into \<open>users\<close> that succeeds has stored the identity \<open>u\<close> and,
  in the same statement, one balance row for it with balance 0, which is then the only
  balance row of that identity. An insertion that fails, the failure of the trigger
  included, leaves both tables as they were: there is no result with the identity and
  without its balance.
\<close>

theorem insert_users_creates_zero_balance:
  assumes "insert_users new s = (r, s')"
  shows "case r of
           Inl e \<Rightarrow> users s' = users s \<and> user_balance s' = user_balance s
         | Inr u \<Rightarrow>
             users s' = users s @ [u]
             \<and> user_balance s' = user_balance s @ [\<lparr>ub_user_id = u_id u, ub_balance = 0\<rparr>]
             \<and> filter (\<lambda>b. ub_user_id b = u_id u) (user_balance s')
                 = [\<lparr>ub_user_id = u_id u, ub_balance = 0\<rparr>]"
proof -
  define s1 where "s1 = (case nu_id new of
                  None \<Rightarrow> s\<lparr>users_id_seq := users_id_seq s + 1\<rparr>
                | Some i \<Rightarrow> s)"
  define new1 where "new1 = (case nu_id new of
                    None \<Rightarrow> new\<lparr>nu_id := Some (users_id_seq s + 1)\<rparr>
                  | Some i \<Rightarrow> new)"
  have tables: "users s1 = users s" "user_balance s1 = user_balance s"
    by (simp_all add: s1_def split: option.splits)
  show ?thesis
  proof (cases "check_users s1 new1")
    case (Some e)
    with assms have "r = Inl e" "s' = s1"
      by (simp_all add: insert_users_def s1_def new1_def Let_def)
    then show ?thesis by (simp add: tables)
  next
    case None
    obtain r2 s2 where trig: "initialize_user_balance (stored_user new1)
                     (s1\<lparr>users := users s1 @ [stored_user new1]\<rparr>) = (r2, s2)"
      by (cases "initialize_user_balance (stored_user new1)
                     (s1\<lparr>users := users s1 @ [stored_user new1]\<rparr>)")
    show ?thesis
    proof (cases r2)
      case (Inl e)
      with assms None trig have "r = Inl e" "s' = s1"
        by (simp_all add: insert_users_def s1_def new1_def Let_def)
      then show ?thesis by (simp add: tables)
    next
      case (Inr u)
      with assms None trig have res: "r = Inr (stored_user new1)" "s' = s2"
        by (simp_all add: insert_users_def s1_def new1_def Let_def)
      from initialize_user_balance_cases [OF trig] Inr
      have fresh: "u_id (stored_user new1) \<notin> set (map ub_user_id (user_balance s))"
        and s2: "s2 = s1\<lparr>users := users s1 @ [stored_user new1],
                  user_balance := user_balance s1
                    @ [\<lparr>ub_user_id = u_id (stored_user new1), ub_balance = 0\<rparr>]\<rparr>"
        by (simp_all add: tables)
      show ?thesis
        using fresh by (simp add: res s2 tables filter_fresh)
    qed
  qed
qed

text \<open>An instance: the first registration.\<close>

theorem insert_users_creates_zero_balance_witness:
  "insert_users example_new_user seeded_db = (Inr example_user, example_db)
   \<and> users example_db = [example_user]
   \<and> filter (\<lambda>b. ub_user_id b = 1) (user_balance example_db)
       = [\<lparr>ub_user_id = 1, ub_balance = 0\<rparr>]"
proof -
  have run: "insert_users example_new_user seeded_db = (Inr example_user, example_db)"
    by (simp add: insert_users_def example_new_user_def seeded_db_def example_db_def
          example_user_def check_users_def users_checks stored_user_def
          initialize_user_balance_def insert_user_balance_def user_balance_checks range_ok_def
          in_int4_def reference_ok_def Let_def)
  from insert_users_creates_zero_balance [OF run] run show ?thesis
    by (simp add: example_user_def seeded_db_def)
qed

section \<open>The balance under credits and debits\<close>

lemma transaction_rollback:
  "transaction callback s = (Inl err, s') \<Longrightarrow>
   users s' = users s \<and> user_balance s' = user_balance s \<and> services s' = services s
   \<and> transaction_type_enum s' = transaction_type_enum s \<and> user_transactions s' = user_transactions s"
  by (auto simp: transaction_def split: prod.splits sum.splits)

lemma insert_user_transactions_balance:
  "insert_user_transactions d new s = (r, s') \<Longrightarrow> user_balance s' = user_balance s"
  by (auto simp: insert_user_transactions_def Let_def split: option.splits sum.splits)

lemma find_map_update:
  "find (\<lambda>b. ub_user_id b = userId) xs = Some z \<Longrightarrow>
   map_option ub_balance (find (\<lambda>b. ub_user_id b = userId)
        (map (\<lambda>b. if ub_user_id b = userId then b\<lparr>ub_balance := v\<rparr> else b) xs)) = Some v"
  by (induction xs) (auto split: if_splits)

lemma balance_of_update:
  assumes "balance_of userId s = Some c" "update_balance userId v s = (Inr u, s1)"
  shows "balance_of userId s1 = Some v"
proof -
  from assms(1) obtain z where z: "find (\<lambda>b. ub_user_id b = userId) (user_balance s) = Some z"
    by (auto simp: balance_of_def)
  from assms(2) have "user_balance s1
      = map (\<lambda>b. if ub_user_id b = userId then b\<lparr>ub_balance := v\<rparr> else b) (user_balance s)"
    by (auto simp: update_balance_def split: if_splits)
  then show ?thesis
    using find_map_update [OF z] by (simp add: balance_of_def)
qed

lemma balance_of_cong: "user_balance s' = user_balance s \<Longrightarrow> balance_of userId s' = balance_of userId s"
  by (simp add: balance_of_def)

lemma select_balance_for_update_eq: "select_balance_for_update userId s = balance_of userId s"
  by (simp add: balance_of_def select_balance_for_update_def)

lemma topUpBalance_commit:
  assumes run: "transactionService_topUpBalance account_not_found now userId amount s = (Inr result, s')"
  shows "\<exists>c. balance_of userId s = Some c \<and> balance_of userId s' = Some (c + amount)
            \<and> tr_balance result = c + amount"
proof (cases "select_balance_for_update userId s")
  case None
  with run show ?thesis by (simp add: transactionService_topUpBalance_def)
next
  case (Some c)
  then have b: "balance_of userId s = Some c"
    by (simp add: select_balance_for_update_eq)
  obtain r1 s1 where up: "update_balance userId (c + amount) s = (r1, s1)"
    by (cases "update_balance userId (c + amount) s")
  show ?thesis
  proof (cases r1)
    case (Inl e)
    with run Some up show ?thesis by (simp add: transactionService_topUpBalance_def)
  next
    case (Inr u)
    obtain r2 s2 where ins: "insert_user_transactions (date_of now)
                       \<lparr>n_id = None,
                        n_user_id = Some userId,
                        n_invoice_number = None,
                        n_service_id = None,
                        n_description = Some ''Top Up balance'',
                        n_total_amount = Some amount,
                        n_created_on = Some now,
                        n_transaction_type_id = select_transaction_type_id ''TOPUP'' s1\<rparr> s1 = (r2, s2)"
      by (cases "insert_user_transactions (date_of now)
                       \<lparr>n_id = None,
                        n_user_id = Some userId,
                        n_invoice_number = None,
                        n_service_id = None,
                        n_description = Some ''Top Up balance'',
                        n_total_amount = Some amount,
                        n_created_on = Some now,
                        n_transaction_type_id = select_transaction_type_id ''TOPUP'' s1\<rparr> s1")
    show ?thesis
    proof (cases r2)
      case (Inl e)
      with run Some up Inr ins show ?thesis by (simp add: transactionService_topUpBalance_def)
    next
      case r2: (Inr row)
      with run Some up Inr ins have res: "result = \<lparr>tr_balance = c + amount\<rparr>" "s' = s2"
        by (simp_all add: transactionService_topUpBalance_def)
      have "balance_of userId s2 = balance_of userId s1"
        by (rule balance_of_cong) (rule insert_user_transactions_balance [OF ins])
      with balance_of_update [OF b up [unfolded Inr]] show ?thesis
        using b res by simp
    qed
  qed
qed

lemma createTransaction_commit:
  assumes run: "transactionService_createTransaction account_not_found now userId code s = (Inr result, s')"
  shows "\<exists>c sv. find (\<lambda>sv. sv_code sv = code) (services s) = Some sv
            \<and> balance_of userId s = Some c \<and> sv_tariff sv \<le> c
            \<and> balance_of userId s' = Some (c - sv_tariff sv)"
proof (cases "find (\<lambda>sv. sv_code sv = code) (services s)")
  case None
  with run show ?thesis by (simp add: transactionService_createTransaction_def)
next
  case sv: (Some sv)
  show ?thesis
  proof (cases "select_balance_for_update userId s")
    case None
    with run sv show ?thesis by (simp add: transactionService_createTransaction_def)
  next
    case (Some c)
    then have b: "balance_of userId s = Some c"
      by (simp add: select_balance_for_update_eq)
    show ?thesis
    proof (cases "c < sv_tariff sv")
      case True
      with run sv Some show ?thesis by (simp add: transactionService_createTransaction_def)
    next
      case False
      obtain r1 s1 where up: "update_balance userId (c - sv_tariff sv) s = (r1, s1)"
        by (cases "update_balance userId (c - sv_tariff sv) s")
      show ?thesis
      proof (cases r1)
        case (Inl e)
        with run sv Some False up show ?thesis
          by (simp add: transactionService_createTransaction_def)
      next
        case (Inr u)
        obtain r2 s2 where ins: "insert_user_transactions (date_of now)
                              \<lparr>n_id = None,
                               n_user_id = Some userId,
                               n_invoice_number = None,
                               n_service_id = Some (sv_id sv),
                               n_description = Some (sv_name sv),
                               n_total_amount = Some (sv_tariff sv),
                               n_created_on = Some now,
                               n_transaction_type_id = select_transaction_type_id ''PAYMENT'' s1\<rparr>
                              s1 = (r2, s2)"
          by (cases "insert_user_transactions (date_of now)
                              \<lparr>n_id = None,
                               n_user_id = Some userId,
                               n_invoice_number = None,
                               n_service_id = Some (sv_id sv),
                               n_description = Some (sv_name sv),
                               n_total_amount = Some (sv_tariff sv),
                               n_created_on = Some now,
                               n_transaction_type_id = select_transaction_type_id ''PAYMENT'' s1\<rparr>
                              s1")
        show ?thesis
        proof (cases r2)
          case (Inl e)
          with run sv Some False up Inr ins show ?thesis
            by (simp add: transactionService_createTransaction_def)
        next
          case r2: (Inr row)
          with run sv Some False up Inr ins have res: "s' = s2"
            by (simp add: transactionService_createTransaction_def)
          have "balance_of userId s2 = balance_of userId s1"
            by (rule balance_of_cong) (rule insert_user_transactions_balance [OF ins])
          with balance_of_update [OF b up [unfolded Inr]] show ?thesis
            using b sv False res by simp
        qed
      qed
    qed
  qed
qed

lemma transaction_commit:
  "transaction callback s = (Inr result, s') \<Longrightarrow> callback s = (Inr result, s')"
  by (auto simp: transaction_def split: prod.splits sum.splits)

lemma topUp_keeps_balance_non_negative:
  assumes "0 < v" "balance_of userId s = Some b" "0 \<le> b"
  shows "\<exists>b'. balance_of userId (snd (topUp account_not_found now userId v s)) = Some b' \<and> 0 \<le> b'"
proof (cases "transaction (transactionService_topUpBalance account_not_found now userId v) s")
  case (Pair r s')
  show ?thesis
  proof (cases r)
    case (Inl err)
    with Pair have "user_balance s' = user_balance s"
      using transaction_rollback by blast
    then have "balance_of userId s' = Some b"
      using assms(2) by (simp add: balance_of_def)
    moreover have "snd (topUp account_not_found now userId v s) = s'"
      using Pair Inl by (simp add: topUp_def)
    ultimately show ?thesis using assms(3) by simp
  next
    case (Inr result)
    with Pair have "transactionService_topUpBalance account_not_found now userId v s = (Inr result, s')"
      by (auto dest: transaction_commit)
    from topUpBalance_commit [OF this] assms
    have "balance_of userId s' = Some (b + v)" by auto
    moreover have "snd (topUp account_not_found now userId v s) = s'"
      using Pair Inr by (simp add: topUp_def)
    ultimately show ?thesis using assms by simp
  qed
qed

lemma createTransaction_keeps_balance_non_negative:
  assumes "balance_of userId s = Some b" "0 \<le> b"
  shows "\<exists>b'. balance_of userId (snd (createTransaction account_not_found now userId code s)) = Some b' \<and> 0 \<le> b'"
proof (cases "transaction (transactionService_createTransaction account_not_found now userId code) s")
  case (Pair r s')
  show ?thesis
  proof (cases r)
    case (Inl err)
    with Pair have "user_balance s' = user_balance s"
      using transaction_rollback by blast
    then have "balance_of userId s' = Some b"
      using assms(1) by (simp add: balance_of_def)
    moreover have "snd (createTransaction account_not_found now userId code s) = s'"
      using Pair Inl by (simp add: createTransaction_def)
    ultimately show ?thesis using assms(2) by simp
  next
    case (Inr result)
    with Pair have "transactionService_createTransaction account_not_found now userId code s = (Inr result, s')"
      by (auto dest: transaction_commit)
    from createTransaction_commit [OF this] assms
    obtain t where "t \<le> b" "balance_of userId s' = Some (b - t)" by auto
    moreover have "snd (createTransaction account_not_found now userId code s) = s'"
      using Pair Inr by (simp add: createTransaction_def)
    ultimately show ?thesis by simp
  qed
qed

lemma validateTopUp_None: "validateTopUp f = None \<Longrightarrow> \<exists>v. f = IntegerValue v \<and> 0 < v"
  by (auto simp: validateTopUp_def split: field.splits if_splits)

lemma apply_operation_keeps_balance_non_negative:
  assumes "balance_of userId s = Some b" "0 \<le> b"
  shows "\<exists>b'. balance_of userId (snd (apply_operation account_not_found userId op s)) = Some b' \<and> 0 \<le> b'"
proof (cases op)
  case (Pair now operation)
  show ?thesis
  proof (cases operation)
    case (Credit f)
    show ?thesis
    proof (cases "validateTopUp f")
      case None
      then obtain v where "f = IntegerValue v" "0 < v"
        using validateTopUp_None by blast
      then show ?thesis
        using topUp_keeps_balance_non_negative [OF _ assms, where v = v and now = now and account_not_found = account_not_found] None Pair Credit
        by (simp add: post_topup_def)
    next
      case (Some msg)
      then show ?thesis using assms Pair Credit by (simp add: post_topup_def)
    qed
  next
    case (Debit code)
    then show ?thesis
      using createTransaction_keeps_balance_non_negative [OF assms] Pair by simp
  qed
qed

lemma observed_balance_non_negative:
  "balance_of userId s = Some b \<Longrightarrow> 0 \<le> b \<Longrightarrow>
   \<forall>s' \<in> set (observed account_not_found userId ops s). \<exists>b'. balance_of userId s' = Some b' \<and> 0 \<le> b'"
proof (induction ops arbitrary: s b)
  case Nil
  then show ?case by simp
next
  case (Cons op ops)
  from apply_operation_keeps_balance_non_negative [OF Cons.prems, of account_not_found op]
  obtain b' where "balance_of userId (snd (apply_operation account_not_found userId op s)) = Some b'" "0 \<le> b'"
    by blast
  from Cons.IH [OF this] Cons.prems show ?case by simp
qed

lemma createTransaction_unknown_service:
  "find (\<lambda>sv. sv_code sv = code) (services s) = None \<Longrightarrow>
   createTransaction account_not_found now userId code s
     = (error_response ''Service ataus Layanan tidak ditemukan'' 400 102 Null, s)"
  by (simp add: createTransaction_def transaction_def transactionService_createTransaction_def)

lemma createTransaction_insufficient:
  "find (\<lambda>sv. sv_code sv = code) (services s) = Some sv \<Longrightarrow> balance_of userId s = Some c \<Longrightarrow>
   c < sv_tariff sv \<Longrightarrow>
   createTransaction account_not_found now userId code s
     = (error_response ''Balance tidak mencukupi'' 400 102 Null, s)"
  by (simp add: createTransaction_def transaction_def transactionService_createTransaction_def
        select_balance_for_update_eq)

lemmas service_defs =
  transactionService_topUpBalance_def transactionService_createTransaction_def
  select_balance_for_update_def update_balance_def select_transaction_type_id_def
  transaction_def database_error_def topUp_def createTransaction_def post_topup_def
  validateTopUp_def toTopUpResponseDTO_def toTransactionResponseDTO_def

lemma sequence_text_2: "sequence_text (Suc (Suc 0)) = ''002''"
  by (simp add: sequence_text_def lpad_def text_of_nat.simps digit_char_def numeral_3_eq_3)

lemma post_topup_example:
  "post_topup example_account_not_found example_now 1 (IntegerValue 100000) example_db =
     (success ''Top Up Balance berhasil'' (TopUpResponse \<lparr>r_balance = 100000\<rparr>),
      example_db\<lparr>user_balance := [\<lparr>ub_user_id = 1, ub_balance = 100000\<rparr>],
                 user_transactions :=
                   [\<lparr>ut_id = 1, ut_user_id = 1, ut_invoice_number = ''INV17082023-001'',
                     ut_service_id = None, ut_description = ''Top Up balance'',
                     ut_total_amount = 100000, ut_created_on = Some example_now,
                     ut_transaction_type_id = 1\<rparr>],
                 user_transactions_id_seq := 1\<rparr>)"
  by (simp add: service_defs insert_defs allocator_defs example_defs
        to_char_example sequence_text_Suc_0)

lemma createTransaction_example:
  "createTransaction example_account_not_found example_now 1 ''PULSA''
     (example_db\<lparr>user_balance := [\<lparr>ub_user_id = 1, ub_balance = 100000\<rparr>],
                 user_transactions :=
                   [\<lparr>ut_id = 1, ut_user_id = 1, ut_invoice_number = ''INV17082023-001'',
                     ut_service_id = None, ut_description = ''Top Up balance'',
                     ut_total_amount = 100000, ut_created_on = Some example_now,
                     ut_transaction_type_id = 1\<rparr>],
                 user_transactions_id_seq := 1\<rparr>) =
     (success ''Transaksi berhasil''
        (TransactionResponse
           \<lparr>t_invoice_number = ''INV17082023-002'', t_service_code = ''PULSA'',
            t_service_name = ''Pulsa'', t_transaction_type = ''PAYMENT'',
            t_total_amount = 40000, t_created_on = Some example_now\<rparr>),
      example_db\<lparr>user_balance := [\<lparr>ub_user_id = 1, ub_balance = 60000\<rparr>],
                 user_transactions :=
                   [\<lparr>ut_id = 1, ut_user_id = 1, ut_invoice_number = ''INV17082023-001'',
                     ut_service_id = None, ut_description = ''Top Up balance'',
                     ut_total_amount = 100000, ut_created_on = Some example_now,
                     ut_transaction_type_id = 1\<rparr>,
                    \<lparr>ut_id = 2, ut_user_id = 1, ut_invoice_number = ''INV17082023-002'',
                     ut_service_id = Some 1, ut_description = ''Pulsa'',
                     ut_total_amount = 40000, ut_created_on = Some example_now,
                     ut_transaction_type_id = 2\<rparr>],
                 user_transactions_id_seq := 2\<rparr>)"
  by (simp add: service_defs insert_defs allocator_defs example_defs
        to_char_example sequence_text_2)

text \<open>
  Claim C5. From a zero balance, after every operation of any sequence of top-ups and
  payments of one identity (each through its route, so a top-up is applied only with a
  positive amount) the stored balance of the identity exists and is not negative; and a
  payment whose tariff exceeds the balance is answered with the error
  \<open>Balance tidak mencukupi\<close> and changes nothing.
\<close>

theorem balance_never_negative:
  assumes "balance_of userId s = Some 0"
  shows "(\<forall>s' \<in> set (observed account_not_found userId ops s). \<exists>b. balance_of userId s' = Some b \<and> 0 \<le> b)
    \<and> (\<forall>s0 now code sv c.
          find (\<lambda>sv. sv_code sv = code) (services s0) = Some sv
          \<and> balance_of userId s0 = Some c \<and> c < sv_tariff sv \<longrightarrow>
          createTransaction account_not_found now userId code s0
            = (error_response ''Balance tidak mencukupi'' 400 102 Null, s0))"
proof
  show "\<forall>s' \<in> set (observed account_not_found userId ops s). \<exists>b. balance_of userId s' = Some b \<and> 0 \<le> b"
    using observed_balance_non_negative [OF assms] by simp
next
  show "\<forall>s0 now code sv c.
          find (\<lambda>sv. sv_code sv = code) (services s0) = Some sv
          \<and> balance_of userId s0 = Some c \<and> c < sv_tariff sv \<longrightarrow>
          createTransaction account_not_found now userId code s0
            = (error_response ''Balance tidak mencukupi'' 400 102 Null, s0)"
    using createTransaction_insufficient by blast
qed

text \<open>
  An instance: a top-up of 100000 and a payment of the service \<open>PULSA\<close> (tariff 40000) by
  the registered identity are both applied; the balance is 0, then 100000, then 60000.
\<close>

theorem balance_never_negative_witness:
  "balance_of 1 example_db = Some 0
   \<and> map (balance_of 1)
       (observed example_account_not_found 1
          [(example_now, Credit (IntegerValue 100000)), (example_now, Debit ''PULSA'')]
          example_db)
     = [Some 0, Some 100000, Some 60000]"
proof -
  have start: "balance_of 1 example_db = Some 0"
    by (simp add: balance_of_def example_db_def seeded_db_def)
  from balance_never_negative [OF start] start show ?thesis
    by (simp add: post_topup_example createTransaction_example balance_of_def)
qed

section \<open>Failed payments\<close>

text \<open>
  Claim C3. When a payment is not answered with success, the balances and the ledger are
  the ones before the request. An unknown service code is answered with the error
  \<open>Service ataus Layanan tidak ditemukan\<close> and a tariff above the balance with
  \<open>Balance tidak mencukupi\<close>, both without any change of the state.
\<close>

theorem failed_payment_changes_nothing:
  assumes "createTransaction account_not_found now userId service_code s = (res, s')"
  shows "(statusCode res \<noteq> 200 \<longrightarrow>
            user_balance s' = user_balance s \<and> user_transactions s' = user_transactions s)
    \<and> (find (\<lambda>sv. sv_code sv = service_code) (services s) = None \<longrightarrow>
          res = error_response ''Service ataus Layanan tidak ditemukan'' 400 102 Null \<and> s' = s)
    \<and> (\<forall>sv c. find (\<lambda>sv. sv_code sv = service_code) (services s) = Some sv
          \<and> balance_of userId s = Some c \<and> c < sv_tariff sv \<longrightarrow>
          res = error_response ''Balance tidak mencukupi'' 400 102 Null \<and> s' = s)"
proof (intro conjI impI allI)
  assume failed: "statusCode res \<noteq> 200"
  obtain r tx where run:
    "transaction (transactionService_createTransaction account_not_found now userId service_code) s = (r, tx)"
    by (cases "transaction (transactionService_createTransaction account_not_found now userId service_code) s")
  show "user_balance s' = user_balance s"
  proof (cases r)
    case (Inl err)
    with run assms have "s' = tx" by (simp add: createTransaction_def)
    with run Inl show ?thesis using transaction_rollback by blast
  next
    case (Inr result)
    with run assms failed show ?thesis
      by (auto simp: createTransaction_def success_def createResponse_def)
  qed
  show "user_transactions s' = user_transactions s"
  proof (cases r)
    case (Inl err)
    with run assms have "s' = tx" by (simp add: createTransaction_def)
    with run Inl show ?thesis using transaction_rollback by blast
  next
    case (Inr result)
    with run assms failed show ?thesis
      by (auto simp: createTransaction_def success_def createResponse_def)
  qed
next
  assume "find (\<lambda>sv. sv_code sv = service_code) (services s) = None"
  from createTransaction_unknown_service [OF this, of account_not_found now userId] assms
  show "res = error_response ''Service ataus Layanan tidak ditemukan'' 400 102 Null" "s' = s"
    by simp_all
next
  fix sv c
  assume "find (\<lambda>sv. sv_code sv = service_code) (services s) = Some sv
          \<and> balance_of userId s = Some c \<and> c < sv_tariff sv"
  then have "createTransaction account_not_found now userId service_code s
     = (error_response ''Balance tidak mencukupi'' 400 102 Null, s)"
    using createTransaction_insufficient by blast
  with assms show "res = error_response ''Balance tidak mencukupi'' 400 102 Null" "s' = s"
    by simp_all
qed

text \<open>
  Instances: the registered identity, whose balance is 0, pays for \<open>PULSA\<close>, and pays for
  a service that does not exist.
\<close>

theorem failed_payment_changes_nothing_witness:
  "createTransaction example_account_not_found example_now 1 ''PULSA'' example_db
     = (\<lparr>statusCode = 400, status = 102, message_of = ''Balance tidak mencukupi'', data = Null\<rparr>,
        example_db)
   \<and> createTransaction example_account_not_found example_now 1 ''INVALID_SERVICE'' example_db
     = (\<lparr>statusCode = 400, status = 102,
         message_of = ''Service ataus Layanan tidak ditemukan'', data = Null\<rparr>, example_db)"
proof -
  obtain res s' where run: "createTransaction example_account_not_found example_now 1 ''PULSA'' example_db = (res, s')"
    by (cases "createTransaction example_account_not_found example_now 1 ''PULSA'' example_db")
  obtain res2 s2 where run2:
    "createTransaction example_account_not_found example_now 1 ''INVALID_SERVICE'' example_db = (res2, s2)"
    by (cases "createTransaction example_account_not_found example_now 1 ''INVALID_SERVICE'' example_db")
  have sv: "find (\<lambda>sv. sv_code sv = ''PULSA'') (services example_db)
      = Some \<lparr>sv_id = 1, sv_code = ''PULSA'', sv_name = ''Pulsa'',
                    sv_icon_url = ''pulsa.png'', sv_tariff = 40000\<rparr>"
    and none: "find (\<lambda>sv. sv_code sv = ''INVALID_SERVICE'') (services example_db) = None"
    and bal: "balance_of 1 example_db = Some 0"
    by (simp_all add: example_db_def seeded_db_def balance_of_def)
  from failed_payment_changes_nothing [OF run] sv bal
  have "res = error_response ''Balance tidak mencukupi'' 400 102 Null \<and> s' = example_db"
    by simp
  moreover from failed_payment_changes_nothing [OF run2] none
  have "res2 = error_response ''Service ataus Layanan tidak ditemukan'' 400 102 Null
      \<and> s2 = example_db"
    by simp
  ultimately show ?thesis
    using run run2 by (simp add: error_response_def createResponse_def)
qed

section \<open>A top-up without a balance row\<close>




section \<open>The history reader\<close>











section \<open>The form of an allocated invoice number\<close>

lemma digit_value_digit_char: "d < 10 \<Longrightarrow> digit_value (digit_char d) = d"
proof -
  assume "d < 10"
  then consider "d = 0" | "d = 1" | "d = 2" | "d = 3" | "d = 4" | "d = 5" | "d = 6" | "d = 7"
    | "d = 8" | "d = 9"
    by atomize_elim arith
  then show ?thesis
    by cases (simp_all add: digit_value_def digit_char_def)
qed

lemma decimal_value_snoc: "decimal_value (xs @ [c]) = 10 * decimal_value xs + digit_value c"
  by (simp add: decimal_value_def)

lemma decimal_value_text_of_nat: "decimal_value (text_of_nat n) = n"
proof (induction n rule: text_of_nat.induct)
  case (1 n)
  show ?case
  proof (cases "n < 10")
    case True
    then show ?thesis
      by (subst text_of_nat.simps) (simp add: decimal_value_def digit_value_digit_char)
  next
    case False
    with 1 have "decimal_value (text_of_nat (n div 10)) = n div 10" by simp
    with False show ?thesis
      by (subst text_of_nat.simps) (simp add: decimal_value_snoc digit_value_digit_char)
  qed
qed

lemma decimal_value_zeros: "decimal_value (replicate k CHR ''0'' @ xs) = decimal_value xs"
proof -
  have "foldl (\<lambda>a c. 10 * a + digit_value c) 0 (replicate k CHR ''0'') = 0"
    by (induction k) (simp_all add: digit_value_def)
  then show ?thesis
    by (simp add: decimal_value_def)
qed

lemma decimal_value_sequence_text: "decimal_value (sequence_text n) = n"
  by (simp add: sequence_text_pad decimal_value_zeros decimal_value_text_of_nat)

lemma length_text_of_nat_pos: "0 < length (text_of_nat n)"
  by (subst text_of_nat.simps) simp





lemma order_by_desc_limit_1_member:
  "order_by_desc_limit_1 xs = Some m \<Longrightarrow> m \<in> set xs"
  by (induction xs arbitrary: m) (auto split: option.splits if_splits)

lemma order_by_desc_limit_1_None: "order_by_desc_limit_1 xs = None \<longleftrightarrow> xs = []"
  by (cases xs) (auto split: option.splits)






lemma sequence_text_1000: "sequence_text 1000 = ''1000''"
  by (simp add: sequence_text_def lpad_def text_of_nat.simps digit_char_def)

section \<open>The last invoice of the day\<close>

text \<open>
  The scan takes the last invoice of the day by the order of the invoice numbers as
  texts, in which \<open>INV17082023-999\<close> comes after \<open>INV17082023-1000\<close>: on a ledger with
  these two entries the allocator finds 999 as the last sequence and allocates 1000 again.
\<close>

lemma allocator_after_999_and_1000:
  "order_by_desc_limit_1 [''INV17082023-999'', ''INV17082023-1000''] = Some ''INV17082023-999''
   \<and> generate_invoice_number (Date 17 8 2023)
       [example_entry 999 ''INV17082023-999'' (Some example_now),
        example_entry 1000 ''INV17082023-1000'' (Some example_now)]
     = Inr (Some ''INV17082023-1000'')"
  by (simp add: allocator_defs example_defs to_char_example sequence_text_1000)

subsection \<open>Three-digit sequence numbers\<close>

lemma digit_char_0: "digit_char 0 = CHR ''0''"
  by (simp add: digit_char_def)

lemma digit_char_code: "d < 10 \<Longrightarrow> of_char (digit_char d) = 48 + d"
proof -
  assume "d < 10"
  then consider "d = 0" | "d = 1" | "d = 2" | "d = 3" | "d = 4" | "d = 5" | "d = 6" | "d = 7"
    | "d = 8" | "d = 9"
    by atomize_elim arith
  then show ?thesis
    by cases (simp_all add: digit_char_def)
qed

lemma digit_char_eq: "a < 10 \<Longrightarrow> b < 10 \<Longrightarrow> digit_char a = digit_char b \<longleftrightarrow> a = b"
  using digit_char_code [of a] digit_char_code [of b] by (metis add_left_cancel)

lemma is_digit_digit_char: "d < 10 \<Longrightarrow> is_digit (digit_char d)"
proof -
  assume "d < 10"
  then consider "d = 0" | "d = 1" | "d = 2" | "d = 3" | "d = 4" | "d = 5" | "d = 6" | "d = 7"
    | "d = 8" | "d = 9"
    by atomize_elim arith
  then show ?thesis
    by cases (simp_all add: digit_char_def is_digit_def)
qed

lemma text_of_nat_1: "n < 10 \<Longrightarrow> text_of_nat n = [digit_char n]"
  by (subst text_of_nat.simps) simp

lemma text_of_nat_2: "10 \<le> n \<Longrightarrow> n < 100 \<Longrightarrow> text_of_nat n = [digit_char (n div 10), digit_char (n mod 10)]"
  by (subst text_of_nat.simps) (simp add: text_of_nat_1)

lemma text_of_nat_3:
  "100 \<le> n \<Longrightarrow> n < 1000 \<Longrightarrow>
   text_of_nat n = [digit_char (n div 100), digit_char (n div 10 mod 10), digit_char (n mod 10)]"
  by (subst text_of_nat.simps) (simp add: text_of_nat_2 div_mult2_eq [symmetric])

lemma sequence_text_3_digits:
  assumes "n < 1000"
  shows "sequence_text n = [digit_char (n div 100), digit_char (n div 10 mod 10), digit_char (n mod 10)]"
proof -
  consider "n < 10" | "10 \<le> n" "n < 100" | "100 \<le> n"
    by linarith
  then show ?thesis
  proof cases
    case 1
    then show ?thesis
      by (simp add: sequence_text_pad text_of_nat_1 digit_char_0 numeral_3_eq_3)
  next
    case 2
    then show ?thesis
      by (simp add: sequence_text_pad text_of_nat_2 digit_char_0 numeral_3_eq_3)
  next
    case 3
    with assms show ?thesis
      by (simp add: sequence_text_pad text_of_nat_3)
  qed
qed

lemma text_less_sequence_text:
  assumes "i < 1000" "j < 1000"
  shows "text_less (sequence_text i) (sequence_text j) \<longleftrightarrow> i < j"
proof -
  have b: "i div 100 < 10" "i div 10 mod 10 < 10" "i mod 10 < 10"
    "j div 100 < 10" "j div 10 mod 10 < 10" "j mod 10 < 10"
    using assms by simp_all
  have "text_less (sequence_text i) (sequence_text j) \<longleftrightarrow>
      (if i div 100 = j div 100
       then (if i div 10 mod 10 = j div 10 mod 10 then i mod 10 < j mod 10
             else i div 10 mod 10 < j div 10 mod 10)
       else i div 100 < j div 100)"
    by (simp add: sequence_text_3_digits assms digit_char_eq b digit_char_code)
  also have "\<dots> \<longleftrightarrow> i < j"
  proof -
    have split: "\<And>n::nat. n = 100 * (n div 100) + 10 * (n div 10 mod 10) + n mod 10"
    proof -
      fix n :: nat
      have "n div 10 = 10 * (n div 10 div 10) + n div 10 mod 10" by simp
      moreover have "n div 10 div 10 = n div 100" by (simp add: div_mult2_eq [symmetric])
      moreover have "n = 10 * (n div 10) + n mod 10" by simp
      ultimately show "n = 100 * (n div 100) + 10 * (n div 10 mod 10) + n mod 10" by linarith
    qed
    define a b c where "a = i div 100" and "b = i div 10 mod 10" and "c = i mod 10"
    define a' b' c' where "a' = j div 100" and "b' = j div 10 mod 10" and "c' = j mod 10"
    have i: "i = 100 * a + 10 * b + c" and j: "j = 100 * a' + 10 * b' + c'"
      unfolding a_def b_def c_def a'_def b'_def c'_def by (rule split)+
    have bounds: "b < 10" "c < 10" "b' < 10" "c' < 10"
      by (simp_all add: b_def c_def b'_def c'_def)
    have "(if a = a' then (if b = b' then c < c' else b < b') else a < a') \<longleftrightarrow> i < j"
      unfolding i j using bounds by (auto split: if_splits)
    then show ?thesis
      by (simp only: a_def b_def c_def a'_def b'_def c'_def)
  qed
  finally show ?thesis .
qed

lemma text_less_append: "text_less (p @ a) (p @ b) = text_less a b"
  by (induction p) simp_all

lemma text_less_irrefl: "\<not> text_less x x"
  by (induction x) simp_all

lemma sequence_text_999: "sequence_text 999 = ''999''"
  by (simp add: sequence_text_3_digits digit_char_def)

lemma text_less_1000_999: "text_less (sequence_text 1000) (sequence_text 999)"
  by (simp add: sequence_text_999 sequence_text_1000)

text \<open>The invoice numbers of a day in which every entry was numbered by the allocator.\<close>

lemma last_of_day_below_1000:
  "a < b \<Longrightarrow> b \<le> 1000 \<Longrightarrow>
   order_by_desc_limit_1 (map (\<lambda>i. p @ sequence_text (min i 1000)) [a..<b])
     = Some (p @ sequence_text (b - 1))"
proof (induction "b - a" arbitrary: a)
  case 0
  then show ?case by simp
next
  case (Suc k)
  show ?case
  proof (cases "Suc a = b")
    case True
    with Suc.prems show ?thesis
      by (auto simp: upt_conv_Cons)
  next
    case False
    with Suc.prems Suc.hyps have "Suc a < b" "k = b - Suc a" by simp_all
    from Suc.hyps(1) [OF this(2) this(1) Suc.prems(2)]
    have ih: "order_by_desc_limit_1 (map (\<lambda>i. p @ sequence_text (min i 1000)) [Suc a..<b])
        = Some (p @ sequence_text (b - 1))" .
    have "\<not> text_less (sequence_text (b - 1)) (sequence_text a)"
      using Suc.prems by (simp add: text_less_sequence_text)
    with ih Suc.prems show ?thesis
      by (simp add: upt_conv_Cons text_less_append)
  qed
qed

lemma last_of_day_repeated:
  "0 < k \<Longrightarrow> order_by_desc_limit_1 (replicate k x) = Some x"
proof (induction k)
  case 0
  then show ?case by simp
next
  case (Suc k)
  then show ?case
    by (cases k) (simp_all add: text_less_irrefl)
qed

lemma last_of_day_from_1000:
  "a \<le> 999 \<Longrightarrow> 0 < k \<Longrightarrow>
   order_by_desc_limit_1
     (map (\<lambda>i. p @ sequence_text (min i 1000)) [a..<1000] @ replicate k (p @ sequence_text 1000))
     = Some (p @ sequence_text 999)"
proof (induction "999 - a" arbitrary: a)
  case 0
  then have "a = 999" by simp
  with 0 show ?case
    by (simp add: upt_conv_Cons last_of_day_repeated text_less_append text_less_1000_999
          del: replicate.simps)
next
  case (Suc n)
  then have a: "a < 999" "n = 999 - Suc a" "Suc a \<le> 999" by simp_all
  from Suc.hyps(1) [OF a(2) a(3) Suc.prems(2)]
  have ih: "order_by_desc_limit_1
     (map (\<lambda>i. p @ sequence_text (min i 1000)) [Suc a..<1000]
        @ replicate k (p @ sequence_text 1000))
     = Some (p @ sequence_text 999)" .
  have "\<not> text_less (sequence_text 999) (sequence_text a)"
    using a by (simp add: text_less_sequence_text)
  with ih a show ?case
    by (simp add: upt_conv_Cons text_less_append)
qed

lemma day_numbers_split:
  "1000 \<le> n \<Longrightarrow>
   map (\<lambda>i. p @ sequence_text (min i 1000)) [1..<Suc n]
   = map (\<lambda>i. p @ sequence_text (min i 1000)) [1..<1000] @ replicate (n - 999) (p @ sequence_text 1000)"
proof -
  assume n: "1000 \<le> n"
  then have "Suc n = 1000 + (Suc n - 1000)" by simp
  then have "[1..<Suc n] = [1..<1000] @ [1000..<Suc n]"
    using upt_add_eq_append [of 1 1000 "Suc n - 1000"] by simp
  moreover have "map (\<lambda>i. p @ sequence_text (min i 1000)) [1000..<Suc n]
      = replicate (n - 999) (p @ sequence_text 1000)"
  proof -
    have "map (\<lambda>i. p @ sequence_text (min i 1000)) [1000..<Suc n]
        = map (\<lambda>i. p @ sequence_text 1000) [1000..<Suc n]"
      using n by (intro map_cong) (auto simp: min_def)
    also have "\<dots> = replicate (length [1000..<Suc n]) (p @ sequence_text 1000)"
      by (rule map_replicate_const)
    also have "length [1000..<Suc n] = n - 999"
      using n by simp
    finally show ?thesis .
  qed
  ultimately show ?thesis by simp
qed

lemma last_of_day:
  "0 < n \<Longrightarrow>
   order_by_desc_limit_1 (map (\<lambda>i. p @ sequence_text (min i 1000)) [1..<Suc n])
     = Some (p @ sequence_text (min n 999))"
proof (cases "n \<le> 999")
  case True
  assume "0 < n"
  with True last_of_day_below_1000 [of 1 "Suc n" p] show ?thesis
    by (simp add: min_def)
next
  case False
  then have n: "1000 \<le> n" by simp
  then have k: "0 < n - 999" and m: "min n 999 = 999" by simp_all
  have "order_by_desc_limit_1 (map (\<lambda>i. p @ sequence_text (min i 1000)) [1..<Suc n])
      = order_by_desc_limit_1
          (map (\<lambda>i. p @ sequence_text (min i 1000)) [1..<1000]
             @ replicate (n - 999) (p @ sequence_text 1000))"
    by (simp only: day_numbers_split [OF n])
  also have "\<dots> = Some (p @ sequence_text 999)"
    by (rule last_of_day_from_1000) (use k in simp_all)
  finally show ?thesis
    by (simp only: m)
qed

lemma text_of_nat_digits: "\<forall>c \<in> set (text_of_nat n). is_digit c"
proof (induction n rule: text_of_nat.induct)
  case (1 n)
  show ?case
  proof (cases "n < 10")
    case True
    then show ?thesis
      by (subst text_of_nat.simps) (simp add: is_digit_digit_char)
  next
    case False
    with 1 show ?thesis
      by (subst text_of_nat.simps) (simp add: is_digit_digit_char)
  qed
qed

lemma is_digit_0: "is_digit CHR ''0''"
  by (simp add: is_digit_def)

lemma not_is_digit_dash: "\<not> is_digit CHR ''-''"
  by (simp add: is_digit_def)

lemma sequence_text_digits: "\<forall>c \<in> set (sequence_text n). is_digit c"
  using text_of_nat_digits [of n] by (auto simp: sequence_text_pad is_digit_0)

lemma sequence_text_not_empty: "sequence_text n \<noteq> []"
  using length_text_of_nat_pos [of n] by (simp add: sequence_text_pad)

lemma substring_trailing_digits_invoice:
  "substring_trailing_digits (p @ CHR ''-'' # sequence_text n) = Some (sequence_text n)"
proof -
  have "takeWhile is_digit (rev (sequence_text n) @ CHR ''-'' # rev p) = rev (sequence_text n)"
    using sequence_text_digits [of n]
    by (subst takeWhile_append2) (simp_all add: not_is_digit_dash)
  then show ?thesis
    by (simp add: substring_trailing_digits_def sequence_text_not_empty)
qed

lemma next_sequence_invoice:
  "n < 1000 \<Longrightarrow> next_sequence (Some (p @ ''-'' @ sequence_text n)) = Inr (Some (Suc n))"
  by (simp add: next_sequence_def substring_trailing_digits_invoice cast_int_def
        decimal_value_sequence_text int4_max_def)

lemma todays_invoices_day:
  "todays_invoices d (map (day_entry d) xs)
   = map (\<lambda>i. (''INV'' @ to_char_DDMMYYYY d @ ''-'') @ sequence_text (min i 1000)) xs"
  by (induction xs)
     (simp_all add: todays_invoices_def day_entry_def example_entry_def created_today_def
        like_prefix_def)

lemma generate_invoice_number_day:
  "generate_invoice_number d (map (day_entry d) [1..<Suc n])
   = Inr (Some (''INV'' @ to_char_DDMMYYYY d @ ''-'' @ sequence_text (min (Suc n) 1000)))"
proof (cases "n = 0")
  case True
  then show ?thesis
    by (simp add: generate_invoice_number_no_today todays_invoices_def sequence_text_Suc_0)
next
  case False
  then have "order_by_desc_limit_1 (todays_invoices d (map (day_entry d) [1..<Suc n]))
      = Some ((''INV'' @ to_char_DDMMYYYY d) @ ''-'' @ sequence_text (min n 999))"
    using last_of_day [of n "''INV'' @ to_char_DDMMYYYY d @ ''-''"]
    by (simp only: todays_invoices_day) simp
  moreover have "min n 999 < 1000" "Suc (min n 999) = min (Suc n) 1000"
    by simp_all
  ultimately show ?thesis
    by (simp only: generate_invoice_number_def Let_def next_sequence_invoice) simp
qed

lemma day_entry_ids: "ut_id (day_entry d i) = int i"
  by (simp add: day_entry_def example_entry_def)

lemma insert_on_day:
  "insert_user_transactions d (example_new_entry None (Some (Timestamp d n)))
     (example_db\<lparr>user_transactions := map (day_entry d) [1..<Suc n],
                user_transactions_id_seq := int n\<rparr>)
   = (Inr (day_entry d (Suc n)),
      example_db\<lparr>user_transactions := map (day_entry d) [1..<Suc (Suc n)],
                 user_transactions_id_seq := int (Suc n)\<rparr>)"
proof -
  define s1 where "s1 = example_db\<lparr>user_transactions := map (day_entry d) [1..<Suc n],
                user_transactions_id_seq := int n + 1\<rparr>"
  define new1 where "new1 = (example_new_entry None (Some (Timestamp d n)))
      \<lparr>n_id := Some (int n + 1)\<rparr>"
  define new2 where "new2 = new1\<lparr>n_invoice_number :=
      Some (''INV'' @ to_char_DDMMYYYY d @ ''-'' @ sequence_text (min (Suc n) 1000))\<rparr>"
  have tables: "user_transactions s1 = map (day_entry d) [1..<Suc n]"
    "map u_id (users s1) = [1]" "map tt_id (transaction_type_enum s1) = [1, 2]"
    by (simp_all add: s1_def example_db_def seeded_db_def example_user_def)
  have trigger: "trigger_generate_invoice_number d (user_transactions s1) new1 = Inr new2"
    by (simp only: trigger_generate_invoice_number_def tables generate_invoice_number_day)
       (simp add: new1_def new2_def example_new_entry_def)
  have fresh: "int n + 1 \<notin> set (map int [1..<Suc n])"
    by auto
  have checks: "check_user_transactions s1 new2 = None"
    using fresh
    by (simp add: check_user_transactions_def user_transactions_checks range_ok_def in_int4_def
          reference_ok_def tables day_entry_ids new2_def new1_def example_new_entry_def
          del: upt_Suc)
  have row: "stored_row new2 = day_entry d (Suc n)"
    by (simp add: stored_row_def new2_def new1_def example_new_entry_def day_entry_def
          example_entry_def add.commute)
  have after: "s1\<lparr>user_transactions := user_transactions s1 @ [day_entry d (Suc n)]\<rparr>
      = example_db\<lparr>user_transactions := map (day_entry d) [1..<Suc (Suc n)],
                 user_transactions_id_seq := int (Suc n)\<rparr>"
    by (simp add: s1_def add.commute)
  let ?s = "example_db\<lparr>user_transactions := map (day_entry d) [1..<Suc n],
                user_transactions_id_seq := int n\<rparr>"
  let ?new = "example_new_entry None (Some (Timestamp d n))"
  have s1': "(case n_id ?new of
                None \<Rightarrow> ?s\<lparr>user_transactions_id_seq := user_transactions_id_seq ?s + 1\<rparr>
              | Some i \<Rightarrow> ?s) = s1"
    by (simp add: s1_def example_new_entry_def)
  have new1': "(case n_id ?new of
                  None \<Rightarrow> ?new\<lparr>n_id := Some (user_transactions_id_seq ?s + 1)\<rparr>
                | Some i \<Rightarrow> ?new) = new1"
    by (simp add: new1_def example_new_entry_def)
  show ?thesis
    unfolding insert_user_transactions_def Let_def s1' new1'
    by (simp add: trigger checks row after)
qed

lemma day_of_inserts_eq:
  "day_of_inserts d n
   = example_db\<lparr>user_transactions := map (day_entry d) [1..<Suc n],
                user_transactions_id_seq := int n\<rparr>"
proof (induction n)
  case 0
  show ?case by (simp add: example_db_def seeded_db_def)
next
  case (Suc n)
  show ?case
    by (simp only: day_of_inserts.simps Suc insert_on_day snd_conv)
qed

text \<open>
  Claim C1 does not hold for the allocator. On any day \<open>d\<close>, after 1000 ledger entries
  were inserted without an invoice number, the scan finds \<open>-999\<close> as the last invoice
  of the day (the greatest as a text), not \<open>-1000\<close>, so the allocator returns
  \<open>-1000\<close> once more: the 1001st entry of the day is stored with the invoice number
  of the 1000th.
\<close>

theorem allocator_repeats_sequence_1000:
  "order_by_desc_limit_1 (todays_invoices d (user_transactions (day_of_inserts d 1000)))
     = Some (''INV'' @ to_char_DDMMYYYY d @ ''-999'')
   \<and> generate_invoice_number d (user_transactions (day_of_inserts d 1000))
     = Inr (Some (''INV'' @ to_char_DDMMYYYY d @ ''-1000''))
   \<and> length (user_transactions (day_of_inserts d 1001)) = 1001
   \<and> ut_invoice_number (user_transactions (day_of_inserts d 1001) ! 999)
     = ''INV'' @ to_char_DDMMYYYY d @ ''-1000''
   \<and> ut_invoice_number (user_transactions (day_of_inserts d 1001) ! 1000)
     = ''INV'' @ to_char_DDMMYYYY d @ ''-1000''"
proof (intro conjI)
  have rows: "\<And>n. user_transactions (day_of_inserts d n) = map (day_entry d) [1..<Suc n]"
    by (simp only: day_of_inserts_eq) simp
  have "order_by_desc_limit_1 (todays_invoices d (map (day_entry d) [1..<Suc 1000]))
      = Some ((''INV'' @ to_char_DDMMYYYY d @ ''-'') @ sequence_text (min 1000 999))"
    by (simp only: todays_invoices_day) (rule last_of_day, simp)
  then show "order_by_desc_limit_1 (todays_invoices d (user_transactions (day_of_inserts d 1000)))
     = Some (''INV'' @ to_char_DDMMYYYY d @ ''-999'')"
    by (simp only: rows) (simp add: sequence_text_999)
  show "generate_invoice_number d (user_transactions (day_of_inserts d 1000))
     = Inr (Some (''INV'' @ to_char_DDMMYYYY d @ ''-1000''))"
    by (simp only: rows generate_invoice_number_day) (simp add: sequence_text_1000)
  show "length (user_transactions (day_of_inserts d 1001)) = 1001"
    by (simp only: rows) simp
  have nth: "\<And>i. i < 1001 \<Longrightarrow>
      user_transactions (day_of_inserts d 1001) ! i = day_entry d (Suc i)"
    by (simp only: rows) (simp del: upt_Suc)
  show "ut_invoice_number (user_transactions (day_of_inserts d 1001) ! 999)
     = ''INV'' @ to_char_DDMMYYYY d @ ''-1000''"
    by (simp add: nth day_entry_def example_entry_def sequence_text_1000)
  show "ut_invoice_number (user_transactions (day_of_inserts d 1001) ! 1000)
     = ''INV'' @ to_char_DDMMYYYY d @ ''-1000''"
    by (simp add: nth day_entry_def example_entry_def sequence_text_1000)
qed

section \<open>The sequence numbers of a day\<close>













end
